theory Spec2Isabelle
  imports Main
begin

unbundle bit_operations_syntax

section \<open>Data model (src/src/index.ts, lines 12-155, and the schema db-init.sql)\<close>

text \<open>
  An id is a uuid, which the TypeScript code handles as a string.  An optional field
  (\<open>cardId?: string\<close>, a nullable column) is an option; JavaScript's truthiness test
  \<open>!x\<close> on such a field is \<open>\<not> truthy x\<close>: undefined, null and the empty string are falsy.
  The timestamp columns (\<open>time\<close>, \<open>created\<close>, \<open>modified\<close>) and the password hash are never
  read by the handlers and are left out of the rows.
\<close>

type_synonym uuid = string

datatype ActionType = ROLL | MOVE | SIGHT | ELIMINATE | PICK_TOKEN | SPECIFIC_TOKEN

datatype GameStage = PLAYING | GUESSING | FINISHED

record ActionRequest =
  rq_type :: ActionType
  rq_cardId :: "string option"
  rq_characterId :: "string option"
  rq_tokenId :: "string option"
  rq_moveTo :: "int option"
  rq_sightUserId :: "string option"

record AppUserTable =
  au_id :: uuid
  au_username :: string

record GameTable =
  g_id :: uuid
  g_owner :: uuid
  g_name :: string
  g_stage :: GameStage

record GameUserTable =
  gu_game :: uuid
  gu_app_user :: uuid
  gu_character :: uuid
  gu_game_order :: int

record GameTokenTable =
  gt_game :: uuid
  gt_token :: uuid
  gt_count :: int

record GameTokenLocationTable =
  gtl_game :: uuid
  gtl_token :: uuid
  gtl_location :: int

record GameUserTokenTable =
  gut_game :: uuid
  gut_app_user :: uuid
  gut_token :: uuid
  gut_count :: int

record GameCharacterTable =
  gc_game :: uuid
  gc_character :: uuid
  gc_location :: int
  gc_eliminated :: bool

record GameCardTable =
  cd_game :: uuid
  cd_id :: uuid
  cd_deck_order :: "int option"
  cd_action1 :: ActionType
  cd_character1 :: "uuid option"
  cd_token1 :: "uuid option"
  cd_action2 :: ActionType
  cd_character2 :: "uuid option"
  cd_token2 :: "uuid option"

record GameUserCardTable =
  guc_game :: uuid
  guc_card :: uuid
  guc_app_user :: uuid

record GameUserGuessTable =
  gg_game :: uuid
  gg_app_user :: uuid
  gg_character :: uuid
  gg_target_user :: uuid
  gg_guess :: bool

record GameLogTable =
  lg_game :: uuid
  lg_id :: int
  lg_app_user :: uuid
  lg_action :: ActionType
  lg_die1 :: "uuid option"
  lg_die2 :: "uuid option"
  lg_card :: "uuid option"
  lg_character :: "uuid option"
  lg_token :: "uuid option"
  lg_move_from :: "int option"
  lg_sight_result :: "bool option"
  lg_sight_user :: "uuid option"

text \<open>
  The persisted state: one list of rows per table of the schema \<open>sleuthers\<close>.  An INSERT
  appends a row, an UPDATE maps over the rows its WHERE clause selects, a DELETE filters
  them out, a SELECT is a filter (a JOIN a nested one).  The handlers use no transaction:
  every \<open>db.query\<close> commits on its own, so a handler returns the state it has reached
  together with its result or its error.
\<close>

record db =
  app_user :: "AppUserTable list"
  game :: "GameTable list"
  game_user :: "GameUserTable list"
  game_token :: "GameTokenTable list"
  game_token_location :: "GameTokenLocationTable list"
  game_user_token :: "GameUserTokenTable list"
  game_character :: "GameCharacterTable list"
  game_card :: "GameCardTable list"
  game_user_card :: "GameUserCardTable list"
  game_user_guess :: "GameUserGuessTable list"
  game_log :: "GameLogTable list"

text \<open>
  What a handler throws: an \<open>ErrorResponse\<close> with its HTTP status and message, a bare
  thrown string, a JavaScript TypeError (reading a property of undefined), or a statement
  the database refuses.
\<close>

datatype error = ErrorResponse nat string | Thrown string | TypeError | DbError

datatype action_result = RNone | RChar uuid | RBool bool

definition truthy :: "string option \<Rightarrow> bool" where
  "truthy s = (case s of None \<Rightarrow> False | Some v \<Rightarrow> v \<noteq> [])"

definition nth_opt :: "'a list \<Rightarrow> nat \<Rightarrow> 'a option" where
  "nth_opt xs i = (if i < length xs then Some (xs ! i) else None)"

definition digit_char :: "nat \<Rightarrow> char" where
  "digit_char d = char_of (48 + d)"

function show_nat :: "nat \<Rightarrow> string" where
  "show_nat n = (if n < 10 then [digit_char n] else show_nat (n div 10) @ [digit_char (n mod 10)])"
  by pat_completeness auto
termination
  by (relation "measure (\<lambda>n. n)") auto

declare show_nat.simps [simp del]

section \<open>Randomness utilities (lines 173-191)\<close>

text \<open>
  \<open>Math.random\<close> is an explicit entropy source: a sequence \<open>rnd\<close> of draws and a cursor.
  Each call consumes one draw \<open>r\<close>; \<open>Math.floor(Math.random() * n)\<close> is \<open>r mod n\<close> and
  \<open>Math.random() < 1 / 6\<close> is \<open>r mod 6 = 0\<close>.
\<close>

type_synonym entropy = "nat \<Rightarrow> nat"

function shuffle_loop :: "entropy \<Rightarrow> nat \<Rightarrow> nat \<Rightarrow> nat \<Rightarrow> 'a list \<Rightarrow> 'a list \<times> nat" where
  "shuffle_loop rnd n pos i arr =
     (if i < n then
        (let j = rnd pos mod n in
         shuffle_loop rnd n (pos + 1) (i + 1)
           (if i \<noteq> j then (arr[i := arr ! j])[j := arr ! i] else arr))
      else (arr, pos))"
  by pat_completeness auto
termination
  by (relation "measure (\<lambda>(rnd, n, pos, i, arr). n - i)") auto

declare shuffle_loop.simps [simp del]

definition shuffle :: "entropy \<Rightarrow> nat \<Rightarrow> 'a list \<Rightarrow> 'a list \<times> nat" where
  "shuffle rnd pos arr = shuffle_loop rnd (length arr) pos 0 arr"

text \<open>\<open>rollDice\<close> shuffles its argument in place, so it also returns the shuffled array.\<close>

definition rollDice ::
  "entropy \<Rightarrow> nat \<Rightarrow> uuid list \<Rightarrow> (uuid option \<times> uuid option) \<times> uuid list \<times> nat" where
  "rollDice rnd pos characters =
     (let (cs, p) = shuffle rnd pos characters;
          d1 = (if rnd p mod 6 = 0 then None else nth_opt cs 0);
          d2 = (if rnd (p + 1) mod 6 = 0 then None else nth_opt cs 1)
      in ((d1, d2), cs, p + 2))"

section \<open>Deduction completion (isFinished, lines 193-229)\<close>

text \<open>
  The rows of \<open>game_user JOIN app_user ON game_user.app_user = app_user.id WHERE game = $1
  ORDER BY game_order\<close>.  A joined row is kept as its \<open>game_user\<close> part: the only
  \<open>app_user\<close> column the handlers read is \<open>id\<close>, which the join makes equal to
  \<open>game_user.app_user\<close>.
\<close>

definition users_of :: "db \<Rightarrow> uuid \<Rightarrow> GameUserTable list" where
  "users_of d gameId =
     sort_key gu_game_order
       (concat (map (\<lambda>gu. map (\<lambda>au. gu) (filter (\<lambda>au. au_id au = gu_app_user gu) (app_user d)))
                    (filter (\<lambda>gu. gu_game gu = gameId) (game_user d))))"

definition guessCount :: "GameUserGuessTable list \<Rightarrow> uuid \<Rightarrow> uuid \<Rightarrow> nat" where
  "guessCount userGuesses user targetUser =
     length (filter (\<lambda>userGuess. gg_app_user userGuess = user \<and>
                                 gg_target_user userGuess = targetUser \<and>
                                 gg_guess userGuess) userGuesses)"

fun isFinished_targets :: "GameUserGuessTable list \<Rightarrow> uuid \<Rightarrow> GameUserTable list \<Rightarrow> bool" where
  "isFinished_targets userGuesses user [] = True"
| "isFinished_targets userGuesses user (targetUser # rest) =
     (if gu_app_user targetUser = user then isFinished_targets userGuesses user rest
      else if guessCount userGuesses user (gu_app_user targetUser) \<noteq> 1 then False
      else isFinished_targets userGuesses user rest)"

fun isFinished_users :: "GameUserGuessTable list \<Rightarrow> GameUserTable list \<Rightarrow> GameUserTable list \<Rightarrow> bool" where
  "isFinished_users userGuesses users [] = True"
| "isFinished_users userGuesses users (user # rest) =
     (if isFinished_targets userGuesses (gu_app_user user) users
      then isFinished_users userGuesses users rest
      else False)"

definition isFinished :: "db \<Rightarrow> uuid \<Rightarrow> bool" where
  "isFinished d gameId =
     (let users = users_of d gameId;
          userGuesses = filter (\<lambda>r. gg_game r = gameId) (game_user_guess d)
      in isFinished_users userGuesses users users)"

section \<open>Guess management (lines 1373-1487)\<close>

record GuessPostRequest =
  gq_characterId :: "string option"
  gq_userId :: "string option"
  gq_guess :: "bool option"

definition set_stage :: "db \<Rightarrow> uuid \<Rightarrow> GameStage \<Rightarrow> db" where
  "set_stage d gameId stage =
     d\<lparr>game := map (\<lambda>g. if g_id g = gameId then g\<lparr>g_stage := stage\<rparr> else g) (game d)\<rparr>"

definition guess_key :: "uuid \<Rightarrow> uuid \<Rightarrow> uuid \<Rightarrow> uuid \<Rightarrow> GameUserGuessTable \<Rightarrow> bool" where
  "guess_key gameId user characterId targetUser r =
     (gg_game r = gameId \<and> gg_app_user r = user \<and> gg_character r = characterId \<and>
      gg_target_user r = targetUser)"

text \<open>\<open>INSERT ... ON CONFLICT (game, app_user, character, target_user) DO UPDATE\<close>.\<close>

definition upsert_guess_row :: "db \<Rightarrow> uuid \<Rightarrow> uuid \<Rightarrow> uuid \<Rightarrow> uuid \<Rightarrow> bool \<Rightarrow> db" where
  "upsert_guess_row d gameId user characterId targetUser guess =
     (if list_ex (guess_key gameId user characterId targetUser) (game_user_guess d)
      then d\<lparr>game_user_guess :=
               map (\<lambda>r. if guess_key gameId user characterId targetUser r
                         then r\<lparr>gg_guess := guess\<rparr> else r) (game_user_guess d)\<rparr>
      else d\<lparr>game_user_guess := game_user_guess d @
               [\<lparr>gg_game = gameId, gg_app_user = user, gg_character = characterId,
                 gg_target_user = targetUser, gg_guess = guess\<rparr>]\<rparr>)"

definition game_lookup_error :: "db \<Rightarrow> uuid \<Rightarrow> error option" where
  "game_lookup_error d gameId =
     (let gameRows = filter (\<lambda>g. g_id g = gameId) (game d) in
      if gameRows = [] then Some (ErrorResponse 404 (''Game '' @ gameId @ '' not found''))
      else if length gameRows > 1 then Some (ErrorResponse 400 (''Duplicate game '' @ gameId))
      else None)"

definition finish_if_complete :: "db \<Rightarrow> uuid \<Rightarrow> db" where
  "finish_if_complete d gameId = (if isFinished d gameId then set_stage d gameId FINISHED else d)"

definition upsertGuess :: "db \<Rightarrow> uuid \<Rightarrow> uuid \<Rightarrow> GuessPostRequest \<Rightarrow> (error + unit) \<times> db" where
  "upsertGuess d gameId authUser req =
     (case (if truthy (gq_characterId req) then gq_characterId req else None) of
        None \<Rightarrow> (Inl (ErrorResponse 400 ''`characterId` is required for guess update request''), d)
      | Some characterId \<Rightarrow>
     (case (if truthy (gq_userId req) then gq_userId req else None) of
        None \<Rightarrow> (Inl (ErrorResponse 400 ''`userId` is required for guess update request''), d)
      | Some userId \<Rightarrow>
     (case gq_guess req of
        None \<Rightarrow> (Inl (ErrorResponse 400 ''`guess` is required for guess update request''), d)
      | Some guess \<Rightarrow>
     (case game_lookup_error d gameId of
        Some e \<Rightarrow> (Inl e, d)
      | None \<Rightarrow>
          (Inr (), finish_if_complete
                     (upsert_guess_row d gameId authUser characterId userId guess) gameId)))))"

definition deleteGuess :: "db \<Rightarrow> uuid \<Rightarrow> uuid \<Rightarrow> GuessPostRequest \<Rightarrow> (error + unit) \<times> db" where
  "deleteGuess d gameId authUser req =
     (case (if truthy (gq_characterId req) then gq_characterId req else None) of
        None \<Rightarrow> (Inl (ErrorResponse 400 ''`characterId` is required for guess update request''), d)
      | Some characterId \<Rightarrow>
     (case (if truthy (gq_userId req) then gq_userId req else None) of
        None \<Rightarrow> (Inl (ErrorResponse 400 ''`userId` is required for guess update request''), d)
      | Some userId \<Rightarrow>
     (case game_lookup_error d gameId of
        Some e \<Rightarrow> (Inl e, d)
      | None \<Rightarrow>
          (Inr (), finish_if_complete
                     (d\<lparr>game_user_guess :=
                          filter (\<lambda>r. \<not> guess_key gameId authUser characterId userId r)
                                 (game_user_guess d)\<rparr>) gameId))))"

section \<open>Turn state machine (POST /game/:gameId, lines 761-1368)\<close>

subsection \<open>Active player and phase counter (lines 768-832)\<close>

function turnCount_loop :: "GameLogTable list \<Rightarrow> uuid \<Rightarrow> nat \<Rightarrow> nat" where
  "turnCount_loop log lastPlayerId count =
     (if count < length log \<and> lg_app_user (log ! (length log - count - 1)) = lastPlayerId
      then turnCount_loop log lastPlayerId (count + 1)
      else count)"
  by pat_completeness auto
termination
  by (relation "measure (\<lambda>(log, p, count). length log - count)") auto

declare turnCount_loop.simps [simp del]

fun game_order_ok :: "nat \<Rightarrow> GameUserTable list \<Rightarrow> bool" where
  "game_order_ok i [] = True"
| "game_order_ok i (u # us) = (gu_game_order u = int i \<and> game_order_ok (Suc i) us)"

definition nth_int :: "'a list \<Rightarrow> int \<Rightarrow> 'a option" where
  "nth_int xs i = (if 0 \<le> i \<and> nat i < length xs then Some (xs ! nat i) else None)"

record turn_ctx =
  tc_log :: "GameLogTable list"
  tc_lastLog :: GameLogTable
  tc_nextLogId :: int
  tc_turnCount :: nat
  tc_curPlayerOrder :: int

definition game_log_of :: "db \<Rightarrow> uuid \<Rightarrow> GameLogTable list" where
  "game_log_of d gameId = sort_key lg_id (filter (\<lambda>l. lg_game l = gameId) (game_log d))"

definition load_turn :: "db \<Rightarrow> uuid \<Rightarrow> uuid \<Rightarrow> error + turn_ctx" where
  "load_turn d gameId authUser =
     (case game_lookup_error d gameId of
        Some e \<Rightarrow> Inl e
      | None \<Rightarrow>
     (let users = users_of d gameId in
      if \<not> game_order_ok 0 users then Inl (Thrown ''Bad user state'')
      else if find (\<lambda>user. gu_app_user user = authUser) users = None
        then Inl (ErrorResponse 404 (''Game '' @ gameId @ '' not found''))
      else
     (let log = game_log_of d gameId in
      if log = [] then Inl (Thrown ''Illegal state'')
      else
     (let lastLog = last log;
          nextLogId = lg_id lastLog + 1;
          lastPlayerId = lg_app_user lastLog;
          turnCount = turnCount_loop log lastPlayerId 1
      in case find (\<lambda>user. gu_app_user user = lastPlayerId) users of
           None \<Rightarrow> Inl TypeError
         | Some lastUser \<Rightarrow>
          (let curPlayerOrder = gu_game_order lastUser in
           case nth_int users curPlayerOrder of
             None \<Rightarrow> Inl TypeError
           | Some curPlayer \<Rightarrow>
               if authUser \<noteq> gu_app_user curPlayer
               then Inl (ErrorResponse 400 ''Not your turn'')
               else Inr \<lparr>tc_log = log, tc_lastLog = lastLog, tc_nextLogId = nextLogId,
                         tc_turnCount = turnCount, tc_curPlayerOrder = curPlayerOrder\<rparr>)))))"

subsection \<open>Request helpers (lines 834-892)\<close>

definition getLocation :: "db \<Rightarrow> uuid \<Rightarrow> uuid \<Rightarrow> error + int" where
  "getLocation d gameId characterId =
     (case filter (\<lambda>c. gc_game c = gameId \<and> gc_character c = characterId) (game_character d) of
        [] \<Rightarrow> Inl (ErrorResponse 400 (''Character '' @ characterId @ '' not found''))
      | c # _ \<Rightarrow> Inr (gc_location c))"

definition moveMatches :: "string option \<Rightarrow> string option \<Rightarrow> bool" where
  "moveMatches move die = (\<not> truthy die \<or> die = move)"

definition movesMatch ::
  "string option \<Rightarrow> string option \<Rightarrow> string option \<Rightarrow> string option \<Rightarrow> bool" where
  "movesMatch move1 move2 die1 die2 =
     ((moveMatches move1 die1 \<and> moveMatches move2 die2) \<or>
      (moveMatches move1 die2 \<and> moveMatches move2 die1))"

text \<open>\<open>location & 3\<close> and \<open>location >>> 2\<close> (the unsigned shift works on 32 bits).\<close>

definition coords :: "int \<Rightarrow> int \<times> int" where
  "coords location = (location AND 3, drop_bit 2 (take_bit 32 location))"

definition dist :: "int \<Rightarrow> int \<Rightarrow> int" where
  "dist location1 location2 =
     (let (x1, y1) = coords location1; (x2, y2) = coords location2
      in \<bar>x1 - x2\<bar> + \<bar>y1 - y2\<bar>)"

definition new_log :: "uuid \<Rightarrow> int \<Rightarrow> uuid \<Rightarrow> ActionType \<Rightarrow> GameLogTable" where
  "new_log gameId logId user action =
     \<lparr>lg_game = gameId, lg_id = logId, lg_app_user = user, lg_action = action,
      lg_die1 = None, lg_die2 = None, lg_card = None, lg_character = None, lg_token = None,
      lg_move_from = None, lg_sight_result = None, lg_sight_user = None\<rparr>"

definition insert_log :: "db \<Rightarrow> GameLogTable \<Rightarrow> db" where
  "insert_log d row = d\<lparr>game_log := game_log d @ [row]\<rparr>"

definition set_location :: "db \<Rightarrow> uuid \<Rightarrow> uuid \<Rightarrow> int \<Rightarrow> db" where
  "set_location d gameId characterId moveTo =
     d\<lparr>game_character :=
         map (\<lambda>c. if gc_game c = gameId \<and> gc_character c = characterId
                   then c\<lparr>gc_location := moveTo\<rparr> else c) (game_character d)\<rparr>"

subsection \<open>Phases 1 and 2: the two dice moves (lines 894-947)\<close>

definition dice_ok :: "turn_ctx \<Rightarrow> string option \<Rightarrow> string option \<Rightarrow> string option \<Rightarrow> bool" where
  "dice_ok ctx characterId die1 die2 =
     (if tc_turnCount ctx = 2
      then movesMatch (lg_character (tc_lastLog ctx)) characterId die1 die2
      else moveMatches characterId die1 \<or> moveMatches characterId die2)"

definition move_phase ::
  "db \<Rightarrow> uuid \<Rightarrow> uuid \<Rightarrow> ActionRequest \<Rightarrow> turn_ctx \<Rightarrow> int option \<Rightarrow> (error + action_result) \<times> db" where
  "move_phase d gameId authUser req ctx characterLocation =
     (if rq_type req \<noteq> MOVE
        then (Inl (ErrorResponse 400 ''First two turn actions must be MOVE''), d)
      else case rq_moveTo req of
        None \<Rightarrow> (Inl (ErrorResponse 400 ''`moveTo` is required for MOVE action''), d)
      | Some moveTo \<Rightarrow>
     (case (if truthy (rq_characterId req) then rq_characterId req else None) of
        None \<Rightarrow> (Inl (ErrorResponse 400 ''`character` is required for MOVE action''), d)
      | Some characterId \<Rightarrow>
     (case nth_opt (tc_log ctx) (length (tc_log ctx) - tc_turnCount ctx) of
        None \<Rightarrow> (Inl TypeError, d)
      | Some roll \<Rightarrow>
          if \<not> dice_ok ctx (Some characterId) (lg_die1 roll) (lg_die2 roll)
            then (Inl (ErrorResponse 400 ''Invalid move''), d)
          else if (case characterLocation of None \<Rightarrow> True | Some loc \<Rightarrow> dist loc moveTo \<noteq> 1)
            then (Inl (ErrorResponse 400 ''Must move exactly 1 space''), d)
          else
            (Inr RNone,
             set_location
               (insert_log d ((new_log gameId (tc_nextLogId ctx) authUser MOVE)
                                \<lparr>lg_character := Some characterId,
                                 lg_move_from := characterLocation\<rparr>))
               gameId characterId moveTo))))"

subsection \<open>Phases 3 and 4: card and slot selection (lines 950-996)\<close>

text \<open>
  \<open>cardId !== lastLog.card\<close> compares a request field (a string or undefined) with a
  column (a string or null): it is false only when both are the same string.
\<close>

definition card_mismatch :: "string option \<Rightarrow> uuid option \<Rightarrow> bool" where
  "card_mismatch cardId lastCard = (cardId = None \<or> cardId \<noteq> lastCard)"

definition hand_cards :: "db \<Rightarrow> uuid \<Rightarrow> uuid \<Rightarrow> uuid \<Rightarrow> GameCardTable list" where
  "hand_cards d gameId cardId authUser =
     concat (map (\<lambda>uc. filter (\<lambda>c. guc_game uc = cd_game c \<and> guc_card uc = cd_id c) (game_card d))
                 (filter (\<lambda>uc. guc_game uc = gameId \<and> guc_card uc = cardId \<and>
                                guc_app_user uc = authUser) (game_user_card d)))"

definition slot_ok :: "turn_ctx \<Rightarrow> GameCardTable \<Rightarrow> ActionType \<Rightarrow> bool" where
  "slot_ok ctx crd type =
     (if tc_turnCount ctx = 4
      then (cd_action1 crd = lg_action (tc_lastLog ctx) \<and> cd_action2 crd = type) \<or>
           (cd_action1 crd = type \<and> cd_action2 crd = lg_action (tc_lastLog ctx))
      else cd_action1 crd = type \<or> cd_action2 crd = type)"

definition select_slot ::
  "db \<Rightarrow> uuid \<Rightarrow> uuid \<Rightarrow> ActionRequest \<Rightarrow> turn_ctx \<Rightarrow> error + (uuid \<times> uuid option \<times> uuid option)" where
  "select_slot d gameId authUser req ctx =
     (if tc_turnCount ctx = 4 \<and> card_mismatch (rq_cardId req) (lg_card (tc_lastLog ctx))
        then Inl (ErrorResponse 400 ''Card did not match previous action'')
      else case (if truthy (rq_cardId req) then rq_cardId req else None) of
        None \<Rightarrow> Inl (ErrorResponse 400 ''Must select card'')
      | Some cardId \<Rightarrow>
     (case hand_cards d gameId cardId authUser of
        [] \<Rightarrow> Inl (ErrorResponse 400 (''Card '' @ cardId @ '' not found''))
      | crd # _ \<Rightarrow>
          if cd_action1 crd = cd_action2 crd then Inl (Thrown ''Cannot distinguish actions'')
          else if \<not> slot_ok ctx crd (rq_type req) then Inl (ErrorResponse 400 ''Invalid action'')
          else Inr (cardId,
                    if cd_action1 crd = rq_type req
                    then (cd_character1 crd, cd_token1 crd)
                    else (cd_character2 crd, cd_token2 crd))))"

subsection \<open>Action resolvers (lines 998-1266)\<close>

definition eliminable :: "db \<Rightarrow> uuid \<Rightarrow> uuid list" where
  "eliminable d gameId =
     map gc_character
       (filter (\<lambda>c. gc_game c = gameId \<and> \<not> gc_eliminated c \<and>
                    gc_character c \<notin> set (map gu_character
                                              (filter (\<lambda>u. gu_game u = gameId) (game_user d))))
               (game_character d))"

text \<open>\<open>characters.length && characters[...]\<close>: the number 0 (None here) when no row is left.\<close>

definition getCharacterId :: "entropy \<Rightarrow> nat \<Rightarrow> db \<Rightarrow> uuid \<Rightarrow> string option \<times> nat" where
  "getCharacterId rnd pos d gameId =
     (let characters = eliminable d gameId in
      if characters = [] then (None, pos)
      else (Some (characters ! (rnd pos mod length characters)), pos + 1))"

definition reset_eliminated :: "db \<Rightarrow> uuid \<Rightarrow> db" where
  "reset_eliminated d gameId =
     d\<lparr>game_character :=
         map (\<lambda>c. if gc_game c = gameId then c\<lparr>gc_eliminated := False\<rparr> else c)
             (game_character d)\<rparr>"

definition set_eliminated :: "db \<Rightarrow> uuid \<Rightarrow> uuid \<Rightarrow> db" where
  "set_eliminated d gameId characterId =
     d\<lparr>game_character :=
         map (\<lambda>c. if gc_game c = gameId \<and> gc_character c = characterId
                   then c\<lparr>gc_eliminated := True\<rparr> else c)
             (game_character d)\<rparr>"

text \<open>
  When the second \<open>getCharacterId\<close> also finds nothing, the code goes on with the number 0
  as the character of the log row, which the uuid column refuses: the INSERT fails after
  the reset has been written.
\<close>

definition resolve_ELIMINATE ::
  "entropy \<Rightarrow> nat \<Rightarrow> db \<Rightarrow> uuid \<Rightarrow> uuid \<Rightarrow> int \<Rightarrow> uuid \<Rightarrow> (error + action_result) \<times> db \<times> nat" where
  "resolve_ELIMINATE rnd pos d gameId authUser nextLogId cardId =
     (let (first, p1) = getCharacterId rnd pos d gameId;
          (eliminatedCharacterId, d1, p2) =
            (if truthy first then (first, d, p1)
             else (let d' = reset_eliminated d gameId;
                       (second, p') = getCharacterId rnd p1 d' gameId
                   in (second, d', p')))
      in case (if truthy eliminatedCharacterId then eliminatedCharacterId else None) of
           None \<Rightarrow> (Inl DbError, d1, p2)
         | Some c \<Rightarrow>
             (Inr (RChar c),
              set_eliminated
                (insert_log d1 ((new_log gameId nextLogId authUser ELIMINATE)
                                  \<lparr>lg_card := Some cardId, lg_character := Some c\<rparr>))
                gameId c,
              p2))"

definition resolve_MOVE ::
  "db \<Rightarrow> uuid \<Rightarrow> uuid \<Rightarrow> int \<Rightarrow> uuid \<Rightarrow> ActionRequest \<Rightarrow> int option \<Rightarrow> (error + action_result) \<times> db" where
  "resolve_MOVE d gameId authUser nextLogId cardId req characterLocation =
     (case rq_moveTo req of
        None \<Rightarrow> (Inl (ErrorResponse 400 ''`moveTo` is required for MOVE action''), d)
      | Some moveTo \<Rightarrow>
     (case (if truthy (rq_characterId req) then rq_characterId req else None) of
        None \<Rightarrow> (Inl (ErrorResponse 400 ''`characterId` is required for MOVE action''), d)
      | Some characterId \<Rightarrow>
          if Some moveTo = characterLocation
            then (Inl (ErrorResponse 400 ''Must move to a different space''), d)
          else
            (Inr RNone,
             set_location
               (insert_log d ((new_log gameId nextLogId authUser MOVE)
                                \<lparr>lg_card := Some cardId, lg_character := Some characterId,
                                 lg_move_from := characterLocation\<rparr>))
               gameId characterId moveTo)))"

text \<open>
  \<open>INSERT INTO game_user_token ... ON CONFLICT (game, app_user, token) DO UPDATE SET
  count = count + 1\<close>, then \<open>UPDATE game_token SET count = count - 1\<close>.
\<close>

definition holding_key :: "uuid \<Rightarrow> uuid \<Rightarrow> uuid \<Rightarrow> GameUserTokenTable \<Rightarrow> bool" where
  "holding_key gameId user tokenId r =
     (gut_game r = gameId \<and> gut_app_user r = user \<and> gut_token r = tokenId)"

definition increment_user_token :: "db \<Rightarrow> uuid \<Rightarrow> uuid \<Rightarrow> uuid \<Rightarrow> db" where
  "increment_user_token d gameId user tokenId =
     (if list_ex (holding_key gameId user tokenId) (game_user_token d)
      then d\<lparr>game_user_token :=
               map (\<lambda>r. if holding_key gameId user tokenId r
                         then r\<lparr>gut_count := gut_count r + 1\<rparr> else r) (game_user_token d)\<rparr>
      else d\<lparr>game_user_token := game_user_token d @
               [\<lparr>gut_game = gameId, gut_app_user = user, gut_token = tokenId, gut_count = 1\<rparr>]\<rparr>)"

definition decrement_stock :: "db \<Rightarrow> uuid \<Rightarrow> uuid \<Rightarrow> db" where
  "decrement_stock d gameId tokenId =
     d\<lparr>game_token :=
         map (\<lambda>r. if gt_game r = gameId \<and> gt_token r = tokenId
                   then r\<lparr>gt_count := gt_count r - 1\<rparr> else r) (game_token d)\<rparr>"

definition token_location_rows :: "db \<Rightarrow> uuid \<Rightarrow> uuid \<Rightarrow> uuid \<Rightarrow> unit list" where
  "token_location_rows d gameId tokenId authUser =
     concat (map (\<lambda>tl.
       concat (map (\<lambda>c.
         map (\<lambda>u. ())
           (filter (\<lambda>u. gc_game c = gu_game u \<and> gc_character c = gu_character u \<and>
                         gu_app_user u = authUser) (game_user d)))
         (filter (\<lambda>c. gtl_game tl = gc_game c \<and> gtl_location tl = gc_location c)
                 (game_character d))))
       (filter (\<lambda>tl. gtl_game tl = gameId \<and> gtl_token tl = tokenId) (game_token_location d)))"

definition resolve_PICK_TOKEN ::
  "db \<Rightarrow> uuid \<Rightarrow> uuid \<Rightarrow> int \<Rightarrow> uuid \<Rightarrow> ActionRequest \<Rightarrow> (error + action_result) \<times> db" where
  "resolve_PICK_TOKEN d gameId authUser nextLogId cardId req =
     (case (if truthy (rq_tokenId req) then rq_tokenId req else None) of
        None \<Rightarrow> (Inl (ErrorResponse 400 ''`tokenId` is required for PICK_TOKEN action''), d)
      | Some tokenId \<Rightarrow>
          if token_location_rows d gameId tokenId authUser = []
            then (Inl (ErrorResponse 400 (''You cannot pick up a '' @ tokenId)), d)
          else
            (Inr RNone,
             decrement_stock
               (increment_user_token
                  (insert_log d ((new_log gameId nextLogId authUser PICK_TOKEN)
                                   \<lparr>lg_card := Some cardId, lg_token := Some tokenId\<rparr>))
                  gameId authUser tokenId)
               gameId tokenId))"

definition resolve_SIGHT ::
  "db \<Rightarrow> uuid \<Rightarrow> uuid \<Rightarrow> int \<Rightarrow> uuid \<Rightarrow> ActionRequest \<Rightarrow> uuid option \<Rightarrow> (error + action_result) \<times> db" where
  "resolve_SIGHT d gameId authUser nextLogId cardId req cardCharacterId =
     (case (if truthy (rq_sightUserId req) then rq_sightUserId req else None) of
        None \<Rightarrow> (Inl (ErrorResponse 400 ''`sightUserId` is required for SIGHT action''), d)
      | Some sightUserId \<Rightarrow>
     (case (if truthy cardCharacterId then cardCharacterId else None) of
        None \<Rightarrow> (Inl (Thrown ''Expected character to be set''), d)
      | Some cardCharacter \<Rightarrow>
     (case filter (\<lambda>u. gu_game u = gameId \<and> gu_app_user u = sightUserId) (game_user d) of
        [] \<Rightarrow> (Inl (ErrorResponse 404 (''User '' @ sightUserId @ '' not found'')), d)
      | sightUser # _ \<Rightarrow>
     (case getLocation d gameId cardCharacter of
        Inl e \<Rightarrow> (Inl e, d)
      | Inr loc1 \<Rightarrow>
     (case getLocation d gameId (gu_character sightUser) of
        Inl e \<Rightarrow> (Inl e, d)
      | Inr loc2 \<Rightarrow>
         (let (x1, y1) = coords loc1; (x2, y2) = coords loc2;
              canSee = (x1 = x2 \<or> y1 = y2)
          in (Inr (RBool canSee),
              insert_log d ((new_log gameId nextLogId authUser SIGHT)
                              \<lparr>lg_card := Some cardId, lg_character := Some cardCharacter,
                               lg_sight_user := Some sightUserId,
                               lg_sight_result := Some canSee\<rparr>))))))))"

definition resolve_SPECIFIC_TOKEN ::
  "db \<Rightarrow> uuid \<Rightarrow> uuid \<Rightarrow> int \<Rightarrow> uuid \<Rightarrow> uuid option \<Rightarrow> (error + action_result) \<times> db" where
  "resolve_SPECIFIC_TOKEN d gameId authUser nextLogId cardId cardTokenId =
     (case (if truthy cardTokenId then cardTokenId else None) of
        None \<Rightarrow> (Inl (Thrown ''Expected token to be set''), d)
      | Some cardToken \<Rightarrow>
          (Inr RNone,
           decrement_stock
             (increment_user_token
                (insert_log d ((new_log gameId nextLogId authUser SPECIFIC_TOKEN)
                                 \<lparr>lg_card := Some cardId, lg_token := Some cardToken\<rparr>))
                gameId authUser cardToken)
             gameId cardToken))"

definition resolve_action ::
  "entropy \<Rightarrow> db \<Rightarrow> uuid \<Rightarrow> uuid \<Rightarrow> int \<Rightarrow> uuid \<Rightarrow> ActionRequest \<Rightarrow> int option \<Rightarrow>
   uuid option \<Rightarrow> uuid option \<Rightarrow> (error + action_result) \<times> db \<times> nat" where
  "resolve_action rnd d gameId authUser nextLogId cardId req characterLocation
                  cardCharacterId cardTokenId =
     (case rq_type req of
        ELIMINATE \<Rightarrow> resolve_ELIMINATE rnd 0 d gameId authUser nextLogId cardId
      | MOVE \<Rightarrow>
          (let (r, d') = resolve_MOVE d gameId authUser nextLogId cardId req characterLocation
           in (r, d', 0))
      | PICK_TOKEN \<Rightarrow>
          (let (r, d') = resolve_PICK_TOKEN d gameId authUser nextLogId cardId req
           in (r, d', 0))
      | SIGHT \<Rightarrow>
          (let (r, d') = resolve_SIGHT d gameId authUser nextLogId cardId req cardCharacterId
           in (r, d', 0))
      | SPECIFIC_TOKEN \<Rightarrow>
          (let (r, d') = resolve_SPECIFIC_TOKEN d gameId authUser nextLogId cardId cardTokenId
           in (r, d', 0))
      | ROLL \<Rightarrow> (Inl (ErrorResponse 400 ''Unexpected action type: ROLL''), d, 0))"

subsection \<open>Token scarcity and turn advancement (lines 1268-1362)\<close>

text \<open>
  \<open>SELECT MIN(count)\<close> is NULL on no rows, and \<open>null < 1\<close> holds in JavaScript.
\<close>

definition minTokens :: "db \<Rightarrow> uuid \<Rightarrow> int option" where
  "minTokens d gameId =
     (case map gt_count (filter (\<lambda>r. gt_game r = gameId) (game_token d)) of
        [] \<Rightarrow> None
      | n # ns \<Rightarrow> Some (fold min ns n))"

definition next_users :: "db \<Rightarrow> uuid \<Rightarrow> int \<Rightarrow> uuid list" where
  "next_users d gameId curPlayerOrder =
     map gu_app_user
       (rev (sort_key gu_game_order
               (filter (\<lambda>u. gu_game u = gameId \<and>
                             (gu_game_order u = curPlayerOrder + 1 \<or> gu_game_order u = 0))
                       (game_user d))))"

definition next_cards :: "db \<Rightarrow> uuid \<Rightarrow> uuid list" where
  "next_cards d gameId =
     map snd
       (sort_key fst
          (List.map_filter
             (\<lambda>c. if cd_game c = gameId then map_option (\<lambda>k. (k, cd_id c)) (cd_deck_order c)
                   else None)
             (game_card d)))"

definition discard :: "db \<Rightarrow> uuid \<Rightarrow> uuid \<Rightarrow> uuid \<Rightarrow> db" where
  "discard d gameId cardId authUser =
     d\<lparr>game_user_card :=
         filter (\<lambda>uc. \<not> (guc_game uc = gameId \<and> guc_card uc = cardId \<and>
                         guc_app_user uc = authUser)) (game_user_card d)\<rparr>"

definition draw :: "db \<Rightarrow> uuid \<Rightarrow> uuid \<Rightarrow> uuid \<Rightarrow> db" where
  "draw d gameId cardId authUser =
     (let d1 = d\<lparr>game_card :=
                  map (\<lambda>c. if cd_game c = gameId \<and> cd_id c = cardId
                            then c\<lparr>cd_deck_order := None\<rparr> else c) (game_card d)\<rparr>
      in d1\<lparr>game_user_card := game_user_card d1 @
               [\<lparr>guc_game = gameId, guc_card = cardId, guc_app_user = authUser\<rparr>]\<rparr>)"

definition next_turn ::
  "entropy \<Rightarrow> nat \<Rightarrow> db \<Rightarrow> uuid \<Rightarrow> uuid \<Rightarrow> turn_ctx \<Rightarrow> uuid \<Rightarrow> action_result \<Rightarrow>
   (error + action_result) \<times> db" where
  "next_turn rnd pos d gameId authUser ctx cardId actionResult =
     (let characters = map gc_character (filter (\<lambda>c. gc_game c = gameId) (game_character d));
          ((die1, die2), cs, pos') = rollDice rnd pos characters
      in case next_users d gameId (tc_curPlayerOrder ctx) of
           [] \<Rightarrow> (Inl TypeError, d)
         | nextUserId # _ \<Rightarrow>
            (let d1 = insert_log d ((new_log gameId (tc_nextLogId ctx + 1) nextUserId ROLL)
                                      \<lparr>lg_die1 := die1, lg_die2 := die2\<rparr>);
                 d2 = discard d1 gameId cardId authUser
             in case next_cards d2 gameId of
                  [] \<Rightarrow> (Inl (Thrown ''Ran out of cards!''), d2)
                | newCardId # _ \<Rightarrow> (Inr actionResult, draw d2 gameId newCardId authUser)))"

definition after_action ::
  "entropy \<Rightarrow> nat \<Rightarrow> db \<Rightarrow> uuid \<Rightarrow> uuid \<Rightarrow> turn_ctx \<Rightarrow> uuid \<Rightarrow> action_result \<Rightarrow>
   (error + action_result) \<times> db" where
  "after_action rnd pos d gameId authUser ctx cardId actionResult =
     (if (case minTokens d gameId of None \<Rightarrow> True | Some n \<Rightarrow> n < 1)
      then (Inr actionResult,
            set_stage d gameId (if isFinished d gameId then FINISHED else GUESSING))
      else if tc_turnCount ctx = 4
      then next_turn rnd pos d gameId authUser ctx cardId actionResult
      else (Inr actionResult, d))"

definition card_phase ::
  "entropy \<Rightarrow> db \<Rightarrow> uuid \<Rightarrow> uuid \<Rightarrow> ActionRequest \<Rightarrow> turn_ctx \<Rightarrow> int option \<Rightarrow>
   (error + action_result) \<times> db" where
  "card_phase rnd d gameId authUser req ctx characterLocation =
     (case select_slot d gameId authUser req ctx of
        Inl e \<Rightarrow> (Inl e, d)
      | Inr (cardId, cardCharacterId, cardTokenId) \<Rightarrow>
         (case resolve_action rnd d gameId authUser (tc_nextLogId ctx) cardId req
                 characterLocation cardCharacterId cardTokenId of
            (Inl e, d1, pos) \<Rightarrow> (Inl e, d1)
          | (Inr actionResult, d1, pos) \<Rightarrow>
              after_action rnd pos d1 gameId authUser ctx cardId actionResult))"

subsection \<open>The handler\<close>

definition characterLocation_of :: "db \<Rightarrow> uuid \<Rightarrow> ActionRequest \<Rightarrow> error + int option" where
  "characterLocation_of d gameId req =
     (case (if truthy (rq_characterId req) then rq_characterId req else None) of
        None \<Rightarrow> Inr None
      | Some characterId \<Rightarrow>
         (case getLocation d gameId characterId of
            Inl e \<Rightarrow> Inl e
          | Inr loc \<Rightarrow> Inr (Some loc)))"

text \<open>
  \<open>moveTo\<close> is an integer here; a JSON number that is not one is refused by the same
  guard (\<open>!Number.isInteger(moveTo)\<close>).
\<close>

definition moveTo_bad :: "ActionRequest \<Rightarrow> bool" where
  "moveTo_bad req = (case rq_moveTo req of None \<Rightarrow> False | Some m \<Rightarrow> m < 0 \<or> m > 11)"

definition applyAction ::
  "entropy \<Rightarrow> db \<Rightarrow> uuid \<Rightarrow> uuid \<Rightarrow> ActionRequest \<Rightarrow> (error + action_result) \<times> db" where
  "applyAction rnd d gameId authUser req =
     (case load_turn d gameId authUser of
        Inl e \<Rightarrow> (Inl e, d)
      | Inr ctx \<Rightarrow>
     (case characterLocation_of d gameId req of
        Inl e \<Rightarrow> (Inl e, d)
      | Inr characterLocation \<Rightarrow>
          if moveTo_bad req
            then (Inl (ErrorResponse 400 ''`moveTo` must be an integer from 0 to 11''), d)
          else if tc_turnCount ctx = 1 \<or> tc_turnCount ctx = 2
            then move_phase d gameId authUser req ctx characterLocation
          else if tc_turnCount ctx = 4 \<or> tc_turnCount ctx = 3
            then card_phase rnd d gameId authUser req ctx characterLocation
          else (Inl (Thrown (''Unexpected turn count: '' @ show_nat (tc_turnCount ctx))), d)))"

section \<open>Game dealer (PUT /game, lines 302-508)\<close>

text \<open>
  The uuids the database generates (\<open>uuid_generate_v4()\<close> behind \<open>RETURNING id\<close>) come from
  a supply \<open>gen\<close>: \<open>gen 0\<close> is the id of the game row and \<open>gen (i + 1)\<close> the id of the card
  inserted with deck order \<open>i\<close>.  A card before its INSERT is a \<open>CardFace\<close>.
\<close>

record CardFace =
  cf_action1 :: ActionType
  cf_character1 :: "uuid option"
  cf_token1 :: "uuid option"
  cf_action2 :: ActionType
  cf_character2 :: "uuid option"
  cf_token2 :: "uuid option"

definition face :: "ActionType \<Rightarrow> uuid option \<Rightarrow> ActionType \<Rightarrow> uuid option \<Rightarrow> CardFace" where
  "face action1 token1 action2 character2 =
     \<lparr>cf_action1 = action1, cf_character1 = None, cf_token1 = token1,
      cf_action2 = action2, cf_character2 = character2, cf_token2 = None\<rparr>"

definition tokens :: "uuid list" where
  "tokens = [''5df859ba-791f-411a-838d-f7615a7b3e17'',
             ''3022189f-3702-4678-a16d-0eea5fbbcc74'',
             ''a41fda70-5b68-4ded-940a-63f8ae7ac987'']"

definition tokenLocations :: "int list list" where
  "tokenLocations = [[1, 2, 4, 6, 7, 8, 11], [0, 1, 3, 5, 6, 8, 10], [2, 3, 4, 5, 9, 10, 11]]"

definition characters0 :: "uuid list" where
  "characters0 = [''53b104c4-15cc-411f-bd68-97c84d200b20'',
                  ''6062b068-48b7-4aa5-81bf-5a137a936ba9'',
                  ''2b2cc145-937b-49d0-ad10-67aa51f2eda2'',
                  ''9a9de24b-05ab-4181-92d1-dbc4cdb0287a'',
                  ''ba4fea2c-cf3b-4be0-8252-73cf77f873e8'',
                  ''d2ed6bb6-134d-4655-ba57-1adb8de316a1'',
                  ''e0908190-3e04-402a-95c3-34993097d31c'',
                  ''a9bcf5d2-71bf-4d32-8de2-dec571768424'',
                  ''e9f2b5d7-514e-4f18-9e18-67a02afecc56'',
                  ''07817c98-5d35-4acf-aa67-d9bb5caab84b'']"

definition generic_cards :: "CardFace list" where
  "generic_cards = [face PICK_TOKEN None MOVE None, face PICK_TOKEN None ELIMINATE None]"

definition token_cards :: "uuid \<Rightarrow> CardFace list" where
  "token_cards tokenId =
     [face SPECIFIC_TOKEN (Some tokenId) MOVE None,
      face SPECIFIC_TOKEN (Some tokenId) ELIMINATE None]"

definition sight_cards :: "nat \<Rightarrow> uuid \<Rightarrow> CardFace list" where
  "sight_cards i characterId =
     [face PICK_TOKEN None SIGHT (Some characterId),
      face (if i mod 2 = 0 then MOVE else ELIMINATE) None SIGHT (Some characterId)]"

definition insert_token :: "uuid \<Rightarrow> int \<Rightarrow> uuid \<times> int list \<Rightarrow> db \<Rightarrow> db" where
  "insert_token gameId tokenCount tk d =
     d\<lparr>game_token := game_token d @
          [\<lparr>gt_game = gameId, gt_token = fst tk, gt_count = tokenCount\<rparr>],
       game_token_location := game_token_location d @
          map (\<lambda>l. \<lparr>gtl_game = gameId, gtl_token = fst tk, gtl_location = l\<rparr>) (snd tk)\<rparr>"

definition insert_characters :: "uuid \<Rightarrow> uuid list \<Rightarrow> db \<Rightarrow> db" where
  "insert_characters gameId characters d =
     d\<lparr>game_character := game_character d @
          map (\<lambda>(i, c). \<lparr>gc_game = gameId, gc_character = c,
                          gc_location = (if i < 5 then int i else int i + 2),
                          gc_eliminated = False\<rparr>)
              (enumerate 0 characters)\<rparr>"

definition insert_cards :: "(nat \<Rightarrow> uuid) \<Rightarrow> uuid \<Rightarrow> CardFace list \<Rightarrow> db \<Rightarrow> db" where
  "insert_cards gen gameId cards d =
     d\<lparr>game_card := game_card d @
          map (\<lambda>(i, f). \<lparr>cd_game = gameId, cd_id = gen (i + 1), cd_deck_order = Some (int i),
                          cd_action1 = cf_action1 f, cd_character1 = cf_character1 f,
                          cd_token1 = cf_token1 f, cd_action2 = cf_action2 f,
                          cd_character2 = cf_character2 f, cd_token2 = cf_token2 f\<rparr>)
              (enumerate 0 cards)\<rparr>"

text \<open>
  The statements of the deal: \<open>UPDATE game_card SET deck_order = NULL WHERE id = $1\<close>,
  \<open>INSERT INTO game_user_card\<close> and \<open>INSERT INTO game_user\<close>.
\<close>

definition clear_deck_order :: "uuid \<Rightarrow> db \<Rightarrow> db" where
  "clear_deck_order cardId d =
     d\<lparr>game_card := map (\<lambda>c. if cd_id c = cardId then c\<lparr>cd_deck_order := None\<rparr> else c)
                        (game_card d)\<rparr>"

definition give_card :: "uuid \<Rightarrow> uuid \<Rightarrow> uuid \<Rightarrow> db \<Rightarrow> db" where
  "give_card gameId userId cardId d =
     d\<lparr>game_user_card := game_user_card d @
          [\<lparr>guc_game = gameId, guc_card = cardId, guc_app_user = userId\<rparr>]\<rparr>"

definition add_game_user :: "uuid \<Rightarrow> uuid \<Rightarrow> uuid \<Rightarrow> nat \<Rightarrow> db \<Rightarrow> db" where
  "add_game_user gameId userId characterId i d =
     d\<lparr>game_user := game_user d @
          [\<lparr>gu_game = gameId, gu_app_user = userId, gu_character = characterId,
            gu_game_order = int i\<rparr>]\<rparr>"

text \<open>
  The inner loop of the deal: \<open>cards.pop()\<close> takes the last card; on an empty array it
  returns undefined and the destructuring throws.
\<close>

fun deal_cards :: "nat \<Rightarrow> uuid \<Rightarrow> uuid \<Rightarrow> uuid list \<Rightarrow> db \<Rightarrow> error option \<times> uuid list \<times> db" where
  "deal_cards 0 gameId userId cardIds d = (None, cardIds, d)"
| "deal_cards (Suc n) gameId userId cardIds d =
     (if cardIds = [] then (Some TypeError, cardIds, d)
      else
        (let cardId = last cardIds
         in deal_cards n gameId userId (butlast cardIds)
              (give_card gameId userId cardId (clear_deck_order cardId d))))"

text \<open>
  The outer loop: one \<open>game_user\<close> row per player, then two cards.  \<open>characters[i]\<close> past
  the end is undefined, which the NOT NULL column refuses.
\<close>

fun deal :: "uuid \<Rightarrow> uuid list \<Rightarrow> nat \<Rightarrow> uuid list \<Rightarrow> uuid list \<Rightarrow> db \<Rightarrow> error option \<times> db" where
  "deal gameId characters i [] cardIds d = (None, d)"
| "deal gameId characters i (userId # rest) cardIds d =
     (case nth_opt characters i of
        None \<Rightarrow> (Some DbError, d)
      | Some c \<Rightarrow>
         (case deal_cards 2 gameId userId cardIds (add_game_user gameId userId c i d) of
            (Some e, cardIds', d2) \<Rightarrow> (Some e, d2)
          | (None, cardIds', d2) \<Rightarrow> deal gameId characters (Suc i) rest cardIds' d2))"

definition unknown_user :: "db \<Rightarrow> uuid list \<Rightarrow> uuid option" where
  "unknown_user d userIds =
     find (\<lambda>userId. filter (\<lambda>au. au_id au = userId) (app_user d) = []) userIds"

definition setup_game ::
  "entropy \<Rightarrow> (nat \<Rightarrow> uuid) \<Rightarrow> db \<Rightarrow> uuid \<Rightarrow> uuid list \<Rightarrow> error option \<times> db" where
  "setup_game rnd gen d gameId userIds =
     (let playerCount = length userIds;
          tokenCount = int playerCount + 2;
          cards1 = generic_cards @ concat (map token_cards tokens);
          d1 = fold (insert_token gameId tokenCount) (zip tokens tokenLocations) d;
          ((die1, die2), characters1, p1) = rollDice rnd 0 characters0;
          d2 = insert_log d1 ((new_log gameId 0 (hd userIds) ROLL)
                                \<lparr>lg_die1 := die1, lg_die2 := die2\<rparr>);
          (characters2, p2) = shuffle rnd p1 characters1;
          cards2 = cards1 @ concat (map (\<lambda>(i, c). sight_cards i c) (enumerate 0 characters2));
          (characters3, p3) = shuffle rnd p2 characters2;
          d3 = insert_characters gameId characters3 d2;
          (cards3, p4) = shuffle rnd p3 cards2;
          d4 = insert_cards gen gameId cards3 d3;
          cardIds = map (\<lambda>i. gen (i + 1)) [0..<length cards3];
          (characters4, p5) = shuffle rnd p4 characters3
      in deal gameId characters4 0 userIds cardIds d4)"

definition createGame ::
  "entropy \<Rightarrow> (nat \<Rightarrow> uuid) \<Rightarrow> db \<Rightarrow> uuid \<Rightarrow> string option \<Rightarrow> uuid list option \<Rightarrow>
   (error + uuid) \<times> db" where
  "createGame rnd gen d authUser name userIds =
     (case (if truthy name then name else None) of
        None \<Rightarrow> (Inl (ErrorResponse 400 ''`name` is required''), d)
      | Some gameName \<Rightarrow>
     (case (case userIds of None \<Rightarrow> None | Some us \<Rightarrow> if us = [] then None else Some us) of
        None \<Rightarrow> (Inl (ErrorResponse 400 ''`userIds` are required''), d)
      | Some us \<Rightarrow>
     (case unknown_user d us of
        Some userId \<Rightarrow> (Inl (ErrorResponse 404 (''User '' @ userId @ '' not found'')), d)
      | None \<Rightarrow>
         (let gameId = gen 0;
              d1 = d\<lparr>game := game d @
                        [\<lparr>g_id = gameId, g_owner = authUser, g_name = gameName,
                          g_stage = PLAYING\<rparr>]\<rparr>;
              playerCount = length us
          in if playerCount < 2 \<or> playerCount > 6
               then (Inl (ErrorResponse 400
                            (''Player count must be 2-6: '' @ show_nat playerCount)), d1)
             else case setup_game rnd gen d1 gameId us of
                    (Some e, d2) \<Rightarrow> (Inl e, d2)
                  | (None, d2) \<Rightarrow> (Inr gameId, d2)))))"

section \<open>Notions of the specification\<close>

text \<open>
  The players of a game (its \<open>game_user\<close> rows that have an account), the number of
  claims "\<open>b\<close> is this character" that \<open>a\<close> has recorded with \<open>guess = true\<close>, the stage
  of a game, the stock of a token and what the players hold of it.
\<close>

definition players :: "db \<Rightarrow> uuid \<Rightarrow> uuid set" where
  "players d gameId =
     gu_app_user ` set (filter (\<lambda>u. gu_game u = gameId \<and>
                                     list_ex (\<lambda>a. au_id a = gu_app_user u) (app_user d))
                               (game_user d))"

definition true_guesses :: "db \<Rightarrow> uuid \<Rightarrow> uuid \<Rightarrow> uuid \<Rightarrow> nat" where
  "true_guesses d gameId a b =
     length (filter (\<lambda>r. gg_game r = gameId \<and> gg_app_user r = a \<and> gg_target_user r = b \<and>
                         gg_guess r) (game_user_guess d))"

definition stages :: "db \<Rightarrow> uuid \<Rightarrow> GameStage list" where
  "stages d gameId = map g_stage (filter (\<lambda>g. g_id g = gameId) (game d))"

definition stock :: "db \<Rightarrow> uuid \<Rightarrow> uuid \<Rightarrow> int" where
  "stock d gameId tokenId =
     sum_list (map gt_count (filter (\<lambda>r. gt_game r = gameId \<and> gt_token r = tokenId)
                                    (game_token d)))"

definition holding :: "db \<Rightarrow> uuid \<Rightarrow> uuid \<Rightarrow> uuid \<Rightarrow> int" where
  "holding d gameId user tokenId =
     sum_list (map gut_count (filter (holding_key gameId user tokenId) (game_user_token d)))"

definition holdings :: "db \<Rightarrow> uuid \<Rightarrow> uuid \<Rightarrow> int" where
  "holdings d gameId tokenId =
     sum_list (map gut_count (filter (\<lambda>r. gut_game r = gameId \<and> gut_token r = tokenId)
                                     (game_user_token d)))"

text \<open>
  The wildcard rule in the words of the specification: a die with no result (null)
  matches any character.
\<close>

definition die_matches :: "uuid \<Rightarrow> uuid option \<Rightarrow> bool" where
  "die_matches move die = (die = None \<or> die = Some move)"

definition paired :: "uuid \<Rightarrow> uuid \<Rightarrow> uuid option \<Rightarrow> uuid option \<Rightarrow> bool" where
  "paired move1 move2 die1 die2 =
     ((die_matches move1 die1 \<and> die_matches move2 die2) \<or>
      (die_matches move1 die2 \<and> die_matches move2 die1))"

section \<open>A two-player game used to run the handlers\<close>

definition ex_log1 :: "GameLogTable list" where
  "ex_log1 = [(new_log ''g'' 0 ''u1'' ROLL)\<lparr>lg_die1 := Some ''c3'', lg_die2 := None\<rparr>]"

definition ex_log2 :: "GameLogTable list" where
  "ex_log2 = ex_log1 @
     [(new_log ''g'' 1 ''u1'' MOVE)\<lparr>lg_character := Some ''c3'', lg_move_from := Some 6\<rparr>]"

definition ex_log3 :: "GameLogTable list" where
  "ex_log3 = ex_log2 @
     [(new_log ''g'' 2 ''u1'' MOVE)\<lparr>lg_character := Some ''c4'', lg_move_from := Some 9\<rparr>]"

definition ex_log4 :: "GameLogTable list" where
  "ex_log4 = ex_log3 @
     [(new_log ''g'' 3 ''u1'' SPECIFIC_TOKEN)\<lparr>lg_card := Some ''k2'', lg_token := Some ''t2''\<rparr>]"

definition ex_card ::
  "uuid \<Rightarrow> int option \<Rightarrow> ActionType \<Rightarrow> uuid option \<Rightarrow> ActionType \<Rightarrow> uuid option \<Rightarrow> GameCardTable" where
  "ex_card cardId deckOrder action1 token1 action2 character2 =
     \<lparr>cd_game = ''g'', cd_id = cardId, cd_deck_order = deckOrder,
      cd_action1 = action1, cd_character1 = None, cd_token1 = token1,
      cd_action2 = action2, cd_character2 = character2, cd_token2 = None\<rparr>"

definition ex_db :: "GameStage \<Rightarrow> GameLogTable list \<Rightarrow> db" where
  "ex_db stage log =
     \<lparr>app_user = [\<lparr>au_id = ''u1'', au_username = ''jeff''\<rparr>,
                  \<lparr>au_id = ''u2'', au_username = ''cassie''\<rparr>],
      game = [\<lparr>g_id = ''g'', g_owner = ''u1'', g_name = ''demo'', g_stage = stage\<rparr>],
      game_user = [\<lparr>gu_game = ''g'', gu_app_user = ''u1'', gu_character = ''c1'', gu_game_order = 0\<rparr>,
                   \<lparr>gu_game = ''g'', gu_app_user = ''u2'', gu_character = ''c2'', gu_game_order = 1\<rparr>],
      game_token = [\<lparr>gt_game = ''g'', gt_token = ''t1'', gt_count = 3\<rparr>,
                    \<lparr>gt_game = ''g'', gt_token = ''t2'', gt_count = 2\<rparr>],
      game_token_location =
        [\<lparr>gtl_game = ''g'', gtl_token = ''t1'', gtl_location = 0\<rparr>,
         \<lparr>gtl_game = ''g'', gtl_token = ''t1'', gtl_location = 1\<rparr>,
         \<lparr>gtl_game = ''g'', gtl_token = ''t2'', gtl_location = 1\<rparr>],
      game_user_token = [],
      game_character =
        [\<lparr>gc_game = ''g'', gc_character = ''c1'', gc_location = 0, gc_eliminated = False\<rparr>,
         \<lparr>gc_game = ''g'', gc_character = ''c2'', gc_location = 1, gc_eliminated = False\<rparr>,
         \<lparr>gc_game = ''g'', gc_character = ''c3'', gc_location = 2, gc_eliminated = False\<rparr>,
         \<lparr>gc_game = ''g'', gc_character = ''c4'', gc_location = 5, gc_eliminated = False\<rparr>],
      game_card =
        [ex_card ''k1'' None PICK_TOKEN None MOVE None,
         ex_card ''k2'' None SPECIFIC_TOKEN (Some ''t2'') ELIMINATE None,
         ex_card ''k3'' None PICK_TOKEN None SIGHT (Some ''c3''),
         ex_card ''k4'' None MOVE None SIGHT (Some ''c4''),
         ex_card ''k5'' (Some 4) PICK_TOKEN None ELIMINATE None],
      game_user_card =
        [\<lparr>guc_game = ''g'', guc_card = ''k1'', guc_app_user = ''u1''\<rparr>,
         \<lparr>guc_game = ''g'', guc_card = ''k2'', guc_app_user = ''u1''\<rparr>,
         \<lparr>guc_game = ''g'', guc_card = ''k3'', guc_app_user = ''u2''\<rparr>,
         \<lparr>guc_game = ''g'', guc_card = ''k4'', guc_app_user = ''u2''\<rparr>],
      game_user_guess = [],
      game_log = log\<rparr>"

definition ex_guess :: "uuid \<Rightarrow> uuid \<Rightarrow> uuid \<Rightarrow> bool \<Rightarrow> GameUserGuessTable" where
  "ex_guess user characterId targetUser guess =
     \<lparr>gg_game = ''g'', gg_app_user = user, gg_character = characterId,
      gg_target_user = targetUser, gg_guess = guess\<rparr>"

definition ex_request :: "ActionType \<Rightarrow> ActionRequest" where
  "ex_request type =
     \<lparr>rq_type = type, rq_cardId = None, rq_characterId = None, rq_tokenId = None,
      rq_moveTo = None, rq_sightUserId = None\<rparr>"

definition ex_guessed :: db where
  "ex_guessed = (ex_db GUESSING ex_log4)
     \<lparr>game_user_guess := [ex_guess ''u1'' ''c2'' ''u2'' True, ex_guess ''u1'' ''c3'' ''u2'' False,
                          ex_guess ''u2'' ''c1'' ''u1'' True]\<rparr>"

definition ex_ctx :: "GameLogTable list \<Rightarrow> turn_ctx" where
  "ex_ctx log = \<lparr>tc_log = log, tc_lastLog = last log, tc_nextLogId = lg_id (last log) + 1,
                 tc_turnCount = length log, tc_curPlayerOrder = 0\<rparr>"

definition ex_move :: "uuid \<Rightarrow> int \<Rightarrow> ActionRequest" where
  "ex_move characterId moveTo =
     (ex_request MOVE)\<lparr>rq_characterId := Some characterId, rq_moveTo := Some moveTo\<rparr>"

definition ex_play :: "ActionType \<Rightarrow> uuid \<Rightarrow> ActionRequest" where
  "ex_play type cardId = (ex_request type)\<lparr>rq_cardId := Some cardId\<rparr>"

text \<open>
  The keys of the schema the token tables rely on: PRIMARY KEY (game, token) on
  \<open>game_token\<close>, PRIMARY KEY (game, app_user, token) on \<open>game_user_token\<close>, and every token
  that a location row or a card of the game names has its stock row.
\<close>

definition stock_rows :: "db \<Rightarrow> uuid \<Rightarrow> uuid \<Rightarrow> GameTokenTable list" where
  "stock_rows d gameId tokenId =
     filter (\<lambda>r. gt_game r = gameId \<and> gt_token r = tokenId) (game_token d)"

definition token_tables_ok :: "db \<Rightarrow> uuid \<Rightarrow> bool" where
  "token_tables_ok d gameId =
     (list_all (\<lambda>r. gt_game r = gameId \<longrightarrow> length (stock_rows d gameId (gt_token r)) = 1)
               (game_token d) \<and>
      list_all (\<lambda>r. gut_game r = gameId \<longrightarrow>
                  length (filter (holding_key gameId (gut_app_user r) (gut_token r))
                                 (game_user_token d)) = 1)
               (game_user_token d) \<and>
      list_all (\<lambda>l. gtl_game l = gameId \<longrightarrow> stock_rows d gameId (gtl_token l) \<noteq> [])
               (game_token_location d) \<and>
      list_all (\<lambda>c. cd_game c = gameId \<longrightarrow>
                  (case cd_token1 c of None \<Rightarrow> True | Some t \<Rightarrow> stock_rows d gameId t \<noteq> []) \<and>
                  (case cd_token2 c of None \<Rightarrow> True | Some t \<Rightarrow> stock_rows d gameId t \<noteq> []))
               (game_card d))"

text \<open>
  The characters of a game, those some player of the game controls, and the rest: the
  pool ELIMINATE draws from.
\<close>

definition characters_of :: "db \<Rightarrow> uuid \<Rightarrow> uuid list" where
  "characters_of d gameId =
     map gc_character (filter (\<lambda>c. gc_game c = gameId) (game_character d))"

definition controlled :: "db \<Rightarrow> uuid \<Rightarrow> uuid list" where
  "controlled d gameId = map gu_character (filter (\<lambda>u. gu_game u = gameId) (game_user d))"

definition uncontrolled :: "db \<Rightarrow> uuid \<Rightarrow> uuid list" where
  "uncontrolled d gameId =
     filter (\<lambda>c. c \<notin> set (controlled d gameId)) (characters_of d gameId)"

definition is_eliminated :: "db \<Rightarrow> uuid \<Rightarrow> uuid \<Rightarrow> bool" where
  "is_eliminated d gameId characterId =
     (characterId \<in> set (characters_of d gameId) \<and>
      list_all (\<lambda>c. gc_game c = gameId \<and> gc_character c = characterId \<longrightarrow> gc_eliminated c)
               (game_character d))"

definition eliminate_log :: "uuid \<Rightarrow> int \<Rightarrow> uuid \<Rightarrow> uuid \<Rightarrow> uuid \<Rightarrow> GameLogTable" where
  "eliminate_log gameId logId user cardId characterId =
     (new_log gameId logId user ELIMINATE)\<lparr>lg_card := Some cardId, lg_character := Some characterId\<rparr>"

definition ex_eliminated :: db where
  "ex_eliminated = (ex_db PLAYING ex_log3)
     \<lparr>game_character :=
        [\<lparr>gc_game = ''g'', gc_character = ''c1'', gc_location = 0, gc_eliminated = False\<rparr>,
         \<lparr>gc_game = ''g'', gc_character = ''c2'', gc_location = 1, gc_eliminated = False\<rparr>,
         \<lparr>gc_game = ''g'', gc_character = ''c3'', gc_location = 2, gc_eliminated = True\<rparr>,
         \<lparr>gc_game = ''g'', gc_character = ''c4'', gc_location = 5, gc_eliminated = True\<rparr>]\<rparr>"

text \<open>
  Two states differ only in the stored stage values when they agree once every stage
  is overwritten with the same value.  \<open>restage w gameId\<close> is what a call does to the
  game table: nothing, or the one UPDATE that writes stage \<open>st\<close> to the game's row.
\<close>

definition forget_stage :: "db \<Rightarrow> db" where
  "forget_stage d = d\<lparr>game := map (\<lambda>r. r\<lparr>g_stage := PLAYING\<rparr>) (game d)\<rparr>"

definition restage :: "GameStage option \<Rightarrow> uuid \<Rightarrow> GameTable list \<Rightarrow> GameTable list" where
  "restage w gameId rows =
     (case w of None \<Rightarrow> rows
      | Some st \<Rightarrow> map (\<lambda>r. if g_id r = gameId then r\<lparr>g_stage := st\<rparr> else r) rows)"

text \<open>
  A game one token short of scarcity in which \<open>u1\<close> has made its guess about \<open>u2\<close>, and
  the two guess requests \<open>u2\<close> sends: the first completes the deduction, the second
  withdraws it.
\<close>

definition ex_scarce :: db where
  "ex_scarce = (ex_db PLAYING ex_log3)
     \<lparr>game_token := [\<lparr>gt_game = ''g'', gt_token = ''t1'', gt_count = 3\<rparr>,
                     \<lparr>gt_game = ''g'', gt_token = ''t2'', gt_count = 1\<rparr>],
      game_user_guess := [ex_guess ''u1'' ''c2'' ''u2'' True]\<rparr>"

definition ex_guess_request :: "bool \<Rightarrow> GuessPostRequest" where
  "ex_guess_request guess =
     \<lparr>gq_characterId = Some ''c1'', gq_userId = Some ''u1'', gq_guess = Some guess\<rparr>"

definition ex_finished :: db where
  "ex_finished = snd (upsertGuess ex_scarce ''g'' ''u2'' (ex_guess_request True))"

definition ex_withdrawn :: db where
  "ex_withdrawn = snd (deleteGuess ex_finished ''g'' ''u2'' (ex_guess_request True))"

definition ex_rnd :: entropy where
  "ex_rnd i = 0"

text \<open>
  What a player holds and where a card sits in the draw pile; a game id is fresh when no
  row of a game-keyed table mentions it.
\<close>

definition hand :: "db \<Rightarrow> uuid \<Rightarrow> uuid \<Rightarrow> uuid list" where
  "hand d gameId user =
     map guc_card (filter (\<lambda>r. guc_game r = gameId \<and> guc_app_user r = user) (game_user_card d))"

definition deck_orders :: "db \<Rightarrow> uuid \<Rightarrow> int option list" where
  "deck_orders d cardId = map cd_deck_order (filter (\<lambda>r. cd_id r = cardId) (game_card d))"

definition total_stock :: "db \<Rightarrow> uuid \<Rightarrow> int" where
  "total_stock d gameId =
     sum_list (map gt_count (filter (\<lambda>r. gt_game r = gameId) (game_token d)))"

definition fresh_game :: "db \<Rightarrow> uuid \<Rightarrow> bool" where
  "fresh_game d gameId =
     (list_all (\<lambda>r. g_id r \<noteq> gameId) (game d) \<and>
      list_all (\<lambda>r. gu_game r \<noteq> gameId) (game_user d) \<and>
      list_all (\<lambda>r. gt_game r \<noteq> gameId) (game_token d) \<and>
      list_all (\<lambda>r. gtl_game r \<noteq> gameId) (game_token_location d) \<and>
      list_all (\<lambda>r. gut_game r \<noteq> gameId) (game_user_token d) \<and>
      list_all (\<lambda>r. gc_game r \<noteq> gameId) (game_character d) \<and>
      list_all (\<lambda>r. cd_game r \<noteq> gameId) (game_card d) \<and>
      list_all (\<lambda>r. guc_game r \<noteq> gameId) (game_user_card d) \<and>
      list_all (\<lambda>r. gg_game r \<noteq> gameId) (game_user_guess d) \<and>
      list_all (\<lambda>r. lg_game r \<noteq> gameId) (game_log d))"

definition ex_gen :: "nat \<Rightarrow> uuid" where
  "ex_gen i = ''n'' @ show_nat i"

text \<open>The game at phase 4 with an empty draw pile.\<close>

definition ex_empty_deck :: db where
  "ex_empty_deck = (ex_db PLAYING ex_log4)
     \<lparr>game_card :=
        [ex_card ''k1'' None PICK_TOKEN None MOVE None,
         ex_card ''k2'' None SPECIFIC_TOKEN (Some ''t2'') ELIMINATE None,
         ex_card ''k3'' None PICK_TOKEN None SIGHT (Some ''c3''),
         ex_card ''k4'' None MOVE None SIGHT (Some ''c4''),
         ex_card ''k5'' None PICK_TOKEN None ELIMINATE None]\<rparr>"

text \<open>
  The same game seen by a third account that is not one of its players, and the same
  database without the game row.
\<close>

definition ex_outsider :: db where
  "ex_outsider = (ex_db PLAYING ex_log4)
     \<lparr>app_user := [\<lparr>au_id = ''u1'', au_username = ''jeff''\<rparr>,
                   \<lparr>au_id = ''u2'', au_username = ''cassie''\<rparr>,
                   \<lparr>au_id = ''u3'', au_username = ''jimmy''\<rparr>]\<rparr>"

definition ex_unknown_game :: db where
  "ex_unknown_game = ex_outsider\<lparr>game := []\<rparr>"

section \<open>Properties\<close>

subsection \<open>Deduction completion\<close>

lemma isFinished_targets_iff:
  "isFinished_targets gs u ts \<longleftrightarrow>
     (\<forall>t\<in>set ts. gu_app_user t \<noteq> u \<longrightarrow> guessCount gs u (gu_app_user t) = 1)"
  by (induction ts) auto

lemma isFinished_users_iff:
  "isFinished_users gs us xs \<longleftrightarrow> (\<forall>x\<in>set xs. isFinished_targets gs (gu_app_user x) us)"
  by (induction xs) auto

lemma set_users_of: "gu_app_user ` set (users_of d g) = players d g"
  by (auto simp: users_of_def players_def list_ex_iff image_iff)

lemma guessCount_game:
  "guessCount (filter (\<lambda>r. gg_game r = g) (game_user_guess d)) a b = true_guesses d g a b"
  by (simp add: guessCount_def true_guesses_def conj_commute conj_left_commute cong: conj_cong)

text \<open>
  C6.  The deduction-completion check returns true exactly when, for every ordered pair of
  distinct players (a, b) of the game, a has recorded exactly one guess with value true
  about b, counted over all characters; no such guess, or more than one, for some pair
  makes it return false.
\<close>

theorem isFinished_iff:
  "isFinished d g \<longleftrightarrow> (\<forall>a\<in>players d g. \<forall>b\<in>players d g. a \<noteq> b \<longrightarrow> true_guesses d g a b = 1)"
  unfolding isFinished_def Let_def isFinished_users_iff isFinished_targets_iff guessCount_game
  unfolding set_users_of[symmetric]
  by (auto simp: eq_commute)

theorem isFinished_iff_witness:
  "players ex_guessed ''g'' = {''u1'', ''u2''} \<and>
   true_guesses ex_guessed ''g'' ''u1'' ''u2'' = 1 \<and>
   true_guesses ex_guessed ''g'' ''u2'' ''u1'' = 1 \<and>
   isFinished ex_guessed ''g''"
proof -
  have p: "players ex_guessed ''g'' = {''u1'', ''u2''}"
    by (simp add: players_def ex_guessed_def ex_db_def)
  have a: "true_guesses ex_guessed ''g'' ''u1'' ''u2'' = 1"
    by (simp add: true_guesses_def ex_guessed_def ex_db_def ex_guess_def)
  have b: "true_guesses ex_guessed ''g'' ''u2'' ''u1'' = 1"
    by (simp add: true_guesses_def ex_guessed_def ex_db_def ex_guess_def)
  have "isFinished ex_guessed ''g''"
    using isFinished_iff [of ex_guessed "''g''"] p a b by auto
  with p a b show ?thesis by simp
qed

subsection \<open>Dice matching in phases 1 and 2\<close>

lemma turnCount_loop_bounds:
  "c \<le> length log \<Longrightarrow> c \<le> turnCount_loop log p c \<and> turnCount_loop log p c \<le> length log"
proof (induction log p c rule: turnCount_loop.induct)
  case (1 log p c)
  show ?case
  proof (cases "c < length log \<and> lg_app_user (log ! (length log - c - 1)) = p")
    case True
    with 1 show ?thesis by (subst turnCount_loop.simps, subst (2) turnCount_loop.simps) auto
  next
    case False
    with 1 show ?thesis by (subst turnCount_loop.simps, subst (2) turnCount_loop.simps) auto
  qed
qed

lemma load_turn_Inr:
  assumes "load_turn d g u = Inr ctx"
  shows "tc_log ctx = game_log_of d g" "tc_log ctx \<noteq> []" "tc_lastLog ctx = last (tc_log ctx)"
    "tc_nextLogId ctx = lg_id (last (tc_log ctx)) + 1"
    "tc_turnCount ctx = turnCount_loop (tc_log ctx) (lg_app_user (last (tc_log ctx))) 1"
    "game_lookup_error d g = None"
  using assms
  by (auto simp: load_turn_def Let_def split: option.splits if_splits)

lemma load_turn_turnCount:
  assumes "load_turn d g u = Inr ctx"
  shows "1 \<le> tc_turnCount ctx \<and> tc_turnCount ctx \<le> length (tc_log ctx)"
proof -
  have "1 \<le> length (tc_log ctx)" using load_turn_Inr(2)[OF assms] by (cases "tc_log ctx") auto
  then show ?thesis
    using turnCount_loop_bounds[of 1 "tc_log ctx" "lg_app_user (last (tc_log ctx))"]
    by (simp add: load_turn_Inr(5)[OF assms])
qed

lemma moveMatches_die: "die \<noteq> Some [] \<Longrightarrow> moveMatches (Some c) die = die_matches c die"
  by (cases die) (auto simp: moveMatches_def die_matches_def truthy_def)

lemma movesMatch_paired:
  "die1 \<noteq> Some [] \<Longrightarrow> die2 \<noteq> Some [] \<Longrightarrow>
   movesMatch (Some m1) (Some m2) die1 die2 = paired m1 m2 die1 die2"
  by (simp add: movesMatch_def paired_def moveMatches_die)

text \<open>
  C1.  Dice matching, for a MOVE that passes the other checks of phases 1 and 2 (known
  character, destination in range and at distance 1).  At phase 1 it is accepted exactly
  when its character matches at least one of the two dice of the turn's ROLL entry; at
  phase 2 exactly when the phase-1 character and the phase-2 character can be paired
  against the two dice in either order.  A die with no result (null) matches any character.
\<close>

theorem move_accepted_iff_dice:
  assumes ctx: "load_turn d g u = Inr ctx"
    and req: "rq_type req = MOVE" "rq_moveTo req = Some m" "0 \<le> m" "m \<le> 11"
             "rq_characterId req = Some c" "c \<noteq> []"
    and loc: "getLocation d g c = Inr loc" "dist loc m = 1"
    and roll: "roll = tc_log ctx ! (length (tc_log ctx) - tc_turnCount ctx)"
    and dice: "lg_die1 roll \<noteq> Some []" "lg_die2 roll \<noteq> Some []"
  shows "(tc_turnCount ctx = 1 \<longrightarrow>
            (fst (applyAction rnd d g u req) = Inr RNone \<longleftrightarrow>
               die_matches c (lg_die1 roll) \<or> die_matches c (lg_die2 roll))) \<and>
         (tc_turnCount ctx = 2 \<longrightarrow>
            (\<forall>m1. lg_character (tc_lastLog ctx) = Some m1 \<longrightarrow>
               (fst (applyAction rnd d g u req) = Inr RNone \<longleftrightarrow>
                  paired m1 c (lg_die1 roll) (lg_die2 roll))))"
proof -
  have n: "nth_opt (tc_log ctx) (length (tc_log ctx) - tc_turnCount ctx) = Some roll"
    using load_turn_turnCount[OF ctx] roll by (auto simp: nth_opt_def)
  have cl: "characterLocation_of d g req = Inr (Some loc)"
    using req loc by (simp add: characterLocation_of_def truthy_def)
  have mb: "\<not> moveTo_bad req" using req by (simp add: moveTo_bad_def)
  have app: "tc_turnCount ctx = 1 \<or> tc_turnCount ctx = 2 \<Longrightarrow>
      applyAction rnd d g u req = move_phase d g u req ctx (Some loc)"
    using ctx cl mb by (simp add: applyAction_def)
  have mp: "fst (move_phase d g u req ctx (Some loc)) = Inr RNone \<longleftrightarrow>
      dice_ok ctx (Some c) (lg_die1 roll) (lg_die2 roll)"
    using req loc n by (simp add: move_phase_def truthy_def)
  show ?thesis
    using app mp dice
    by (auto simp: dice_ok_def moveMatches_die movesMatch_paired)
qed

lemma ex_load1: "load_turn (ex_db PLAYING ex_log1) ''g'' ''u1'' = Inr (ex_ctx ex_log1)"
  by code_simp

lemma ex_load2: "load_turn (ex_db PLAYING ex_log2) ''g'' ''u1'' = Inr (ex_ctx ex_log2)"
  by code_simp

theorem move_accepted_iff_dice_witness:
  "tc_turnCount (ex_ctx ex_log1) = 1 \<and>
   die_matches ''c3'' (Some ''c3'') \<and>
   fst (applyAction (\<lambda>i. 0) (ex_db PLAYING ex_log1) ''g'' ''u1'' (ex_move ''c3'' 3)) = Inr RNone \<and>
   tc_turnCount (ex_ctx ex_log2) = 2 \<and>
   lg_character (tc_lastLog (ex_ctx ex_log2)) = Some ''c3'' \<and>
   paired ''c3'' ''c4'' (Some ''c3'') None \<and>
   fst (applyAction (\<lambda>i. 0) (ex_db PLAYING ex_log2) ''g'' ''u1'' (ex_move ''c4'' 4)) = Inr RNone \<and>
   \<not> paired ''c3'' ''c2'' (Some ''c3'') (Some ''c1'')"
proof -
  have t1: "tc_turnCount (ex_ctx ex_log1) = 1" by code_simp
  have r1: "tc_log (ex_ctx ex_log1) ! (length (tc_log (ex_ctx ex_log1)) - tc_turnCount (ex_ctx ex_log1))
            = (new_log ''g'' 0 ''u1'' ROLL)\<lparr>lg_die1 := Some ''c3'', lg_die2 := None\<rparr>"
    by (simp add: ex_ctx_def ex_log1_def)
  have l1: "getLocation (ex_db PLAYING ex_log1) ''g'' ''c3'' = Inr 2" by code_simp
  have d1: "dist 2 3 = 1" by code_simp
  have m1: "die_matches ''c3'' (Some ''c3'')" by (simp add: die_matches_def)
  have a1: "fst (applyAction (\<lambda>i. 0) (ex_db PLAYING ex_log1) ''g'' ''u1'' (ex_move ''c3'' 3)) = Inr RNone"
    using move_accepted_iff_dice [OF ex_load1, of "ex_move ''c3'' 3" 3 "''c3''" 2 _ "\<lambda>i. 0", OF _ _ _ _ _ _ l1 d1 r1[symmetric]]
      t1 m1
    by (simp add: ex_move_def ex_request_def new_log_def)
  have t2: "tc_turnCount (ex_ctx ex_log2) = 2" by code_simp
  have c2: "lg_character (tc_lastLog (ex_ctx ex_log2)) = Some ''c3''" by code_simp
  have r2: "tc_log (ex_ctx ex_log2) ! (length (tc_log (ex_ctx ex_log2)) - tc_turnCount (ex_ctx ex_log2))
            = (new_log ''g'' 0 ''u1'' ROLL)\<lparr>lg_die1 := Some ''c3'', lg_die2 := None\<rparr>"
    by (simp add: ex_ctx_def ex_log2_def ex_log1_def)
  have l2: "getLocation (ex_db PLAYING ex_log2) ''g'' ''c4'' = Inr 5" by code_simp
  have d2: "dist 5 4 = 1" by code_simp
  have m2: "paired ''c3'' ''c4'' (Some ''c3'') None" by (simp add: paired_def die_matches_def)
  have a2: "fst (applyAction (\<lambda>i. 0) (ex_db PLAYING ex_log2) ''g'' ''u1'' (ex_move ''c4'' 4)) = Inr RNone"
    using move_accepted_iff_dice [OF ex_load2, of "ex_move ''c4'' 4" 4 "''c4''" 5 _ "\<lambda>i. 0", OF _ _ _ _ _ _ l2 d2 r2[symmetric]]
      t2 c2 m2
    by (simp add: ex_move_def ex_request_def new_log_def)
  have n: "\<not> paired ''c3'' ''c2'' (Some ''c3'') (Some ''c1'')" by (simp add: paired_def die_matches_def)
  from t1 m1 a1 t2 c2 m2 a2 n show ?thesis by simp
qed

subsection \<open>Card and slot selection in phase 4\<close>

lemma applyAction_card_phase:
  assumes "load_turn d g u = Inr ctx" "tc_turnCount ctx = 3 \<or> tc_turnCount ctx = 4"
    and "fst (applyAction rnd d g u req) = Inr r"
  shows "\<exists>x. select_slot d g u req ctx = Inr x"
  using assms
  by (auto simp: applyAction_def card_phase_def split: sum.splits if_splits)

text \<open>
  C2.  At phase 4 a request is accepted only if its \<open>cardId\<close> is the card of the phase-3
  log entry and its action type is the other slot of that card: the card's two action types
  differ, and the phase-3 and phase-4 actions together are exactly those two types.  The
  card and slot checks pass exactly for such a request; any other card or action type is
  rejected.
\<close>

theorem phase4_same_card_other_slot:
  assumes ctx: "load_turn d g u = Inr ctx" and ph: "tc_turnCount ctx = 4"
  shows "(fst (applyAction rnd d g u req) = Inr r \<longrightarrow> (\<exists>x. select_slot d g u req ctx = Inr x)) \<and>
         ((\<exists>x. select_slot d g u req ctx = Inr x) \<longleftrightarrow>
          (\<exists>cardId crd rest.
              rq_cardId req = Some cardId \<and> cardId \<noteq> [] \<and>
              lg_card (tc_lastLog ctx) = Some cardId \<and>
              hand_cards d g cardId u = crd # rest \<and>
              cd_action1 crd \<noteq> cd_action2 crd \<and>
              rq_type req \<noteq> lg_action (tc_lastLog ctx) \<and>
              {lg_action (tc_lastLog ctx), rq_type req} = {cd_action1 crd, cd_action2 crd}))"
proof
  show "fst (applyAction rnd d g u req) = Inr r \<longrightarrow> (\<exists>x. select_slot d g u req ctx = Inr x)"
    using applyAction_card_phase[OF ctx] ph by blast
next
  show "(\<exists>x. select_slot d g u req ctx = Inr x) \<longleftrightarrow>
          (\<exists>cardId crd rest.
              rq_cardId req = Some cardId \<and> cardId \<noteq> [] \<and>
              lg_card (tc_lastLog ctx) = Some cardId \<and>
              hand_cards d g cardId u = crd # rest \<and>
              cd_action1 crd \<noteq> cd_action2 crd \<and>
              rq_type req \<noteq> lg_action (tc_lastLog ctx) \<and>
              {lg_action (tc_lastLog ctx), rq_type req} = {cd_action1 crd, cd_action2 crd})"
    using ph
    by (auto simp: select_slot_def slot_ok_def card_mismatch_def truthy_def doubleton_eq_iff
             split: option.splits list.splits if_splits)
qed

lemma ex_load4: "load_turn (ex_db PLAYING ex_log4) ''g'' ''u1'' = Inr (ex_ctx ex_log4)"
  by code_simp

theorem phase4_same_card_other_slot_witness:
  "tc_turnCount (ex_ctx ex_log4) = 4 \<and>
   lg_card (tc_lastLog (ex_ctx ex_log4)) = Some ''k2'' \<and>
   lg_action (tc_lastLog (ex_ctx ex_log4)) = SPECIFIC_TOKEN \<and>
   fst (applyAction (\<lambda>i. 1) (ex_db PLAYING ex_log4) ''g'' ''u1'' (ex_play ELIMINATE ''k2''))
     = Inr (RChar ''c4'') \<and>
   (\<exists>x. select_slot (ex_db PLAYING ex_log4) ''g'' ''u1'' (ex_play ELIMINATE ''k2'') (ex_ctx ex_log4)
          = Inr x) \<and>
   \<not> (\<exists>x. select_slot (ex_db PLAYING ex_log4) ''g'' ''u1'' (ex_play MOVE ''k1'') (ex_ctx ex_log4)
          = Inr x) \<and>
   \<not> (\<exists>x. select_slot (ex_db PLAYING ex_log4) ''g'' ''u1'' (ex_play SPECIFIC_TOKEN ''k2'')
            (ex_ctx ex_log4) = Inr x)"
proof -
  have t: "tc_turnCount (ex_ctx ex_log4) = 4" by code_simp
  have c: "lg_card (tc_lastLog (ex_ctx ex_log4)) = Some ''k2''" by code_simp
  have a: "lg_action (tc_lastLog (ex_ctx ex_log4)) = SPECIFIC_TOKEN" by code_simp
  have acc: "fst (applyAction (\<lambda>i. 1) (ex_db PLAYING ex_log4) ''g'' ''u1'' (ex_play ELIMINATE ''k2''))
     = Inr (RChar ''c4'')" by code_simp
  note th = phase4_same_card_other_slot [OF ex_load4 t]
  have s1: "\<exists>x. select_slot (ex_db PLAYING ex_log4) ''g'' ''u1'' (ex_play ELIMINATE ''k2'')
              (ex_ctx ex_log4) = Inr x"
    using th [of "\<lambda>i. 1" "ex_play ELIMINATE ''k2''" "RChar ''c4''"] acc by blast
  have s2: "\<not> (\<exists>x. select_slot (ex_db PLAYING ex_log4) ''g'' ''u1'' (ex_play MOVE ''k1'')
              (ex_ctx ex_log4) = Inr x)"
    using th [of "\<lambda>i. 1" "ex_play MOVE ''k1''" RNone] c
    by (simp add: ex_play_def ex_request_def)
  have s3: "\<not> (\<exists>x. select_slot (ex_db PLAYING ex_log4) ''g'' ''u1'' (ex_play SPECIFIC_TOKEN ''k2'')
              (ex_ctx ex_log4) = Inr x)"
    using th [of "\<lambda>i. 1" "ex_play SPECIFIC_TOKEN ''k2''" RNone] a
    by (simp add: ex_play_def ex_request_def)
  from t c a acc s1 s2 s3 show ?thesis by blast
qed

subsection \<open>Only the active player acts\<close>

lemma game_order_ok_nth:
  "game_order_ok i us \<Longrightarrow> k < length us \<Longrightarrow> gu_game_order (us ! k) = int (i + k)"
proof (induction us arbitrary: i k)
  case Nil
  then show ?case by simp
next
  case (Cons a us)
  then show ?case by (cases k) auto
qed

lemma find_nth_int:
  assumes ok: "game_order_ok 0 us" and f: "find P us = Some x"
  shows "nth_int us (gu_game_order x) = Some x"
proof -
  from f obtain k where k: "k < length us" "us ! k = x"
    by (auto simp: find_Some_iff)
  have "gu_game_order x = int k" using game_order_ok_nth[OF ok k(1)] k(2) by simp
  then show ?thesis using k by (simp add: nth_int_def)
qed

lemma load_turn_actor:
  assumes "load_turn d g u = Inr ctx"
  shows "u = lg_app_user (last (game_log_of d g))"
proof -
  let ?us = "users_of d g"
  let ?p = "lg_app_user (last (game_log_of d g))"
  from assms have ok: "game_order_ok 0 ?us"
    by (auto simp: load_turn_def Let_def split: option.splits if_splits)
  from assms obtain x where x: "find (\<lambda>user. gu_app_user user = ?p) ?us = Some x"
    by (auto simp: load_turn_def Let_def split: option.splits if_splits)
  have px: "gu_app_user x = ?p" using x by (auto simp: find_Some_iff)
  have "nth_int ?us (gu_game_order x) = Some x" by (rule find_nth_int[OF ok x])
  with assms x px show ?thesis
    by (auto simp: load_turn_def Let_def split: option.splits if_splits)
qed

lemma applyAction_load_error:
  "load_turn d g u = Inl e \<Longrightarrow> applyAction rnd d g u req = (Inl e, d)"
  by (simp add: applyAction_def)

lemma find_player:
  assumes "p \<in> players d g"
  shows "\<exists>x. find (\<lambda>user. gu_app_user user = p) (users_of d g) = Some x"
proof -
  have "p \<in> gu_app_user ` set (users_of d g)" using assms
    by (auto simp: users_of_def players_def list_ex_iff image_iff)
  then have "find (\<lambda>user. gu_app_user user = p) (users_of d g) \<noteq> None"
    by (auto simp: find_None_iff)
  then show ?thesis by auto
qed

text \<open>
  A caller who is not a player of the game is not the active player either, and is
  answered as if the game did not exist: \<open>ErrorResponse 404 "Game g not found"\<close>, the
  very answer given when the game row is missing, and not the "Not your turn" error
  that a player of the game receives out of turn.
\<close>

theorem outsider_not_found_counterexample:
  "''u3'' \<noteq> lg_app_user (last (game_log_of ex_outsider ''g'')) \<and>
   ''u3'' \<notin> players ex_outsider ''g'' \<and>
   applyAction ex_rnd ex_outsider ''g'' ''u3'' (ex_play ELIMINATE ''k2'')
     = (Inl (ErrorResponse 404 ''Game g not found''), ex_outsider) \<and>
   applyAction ex_rnd ex_unknown_game ''g'' ''u3'' (ex_play ELIMINATE ''k2'')
     = (Inl (ErrorResponse 404 ''Game g not found''), ex_unknown_game) \<and>
   applyAction ex_rnd ex_outsider ''g'' ''u2'' (ex_play ELIMINATE ''k2'')
     = (Inl (ErrorResponse 400 ''Not your turn''), ex_outsider)"
  by code_simp

lemma find_outsider:
  assumes "p \<notin> players d g"
  shows "find (\<lambda>user. gu_app_user user = p) (users_of d g) = None"
proof -
  have "p \<notin> gu_app_user ` set (users_of d g)" using assms
    by (auto simp: users_of_def players_def list_ex_iff image_iff)
  then show ?thesis by (auto simp: find_None_iff)
qed

text \<open>
  C7 (as the code has it).  The active player is the actor of the last entry of the game's
  log.  When the acting player is somebody else, \<open>applyAction\<close> fails and the state is
  exactly the one before the call.  In a game with its row, its players in order and a log
  whose last actor is a player, the failure is \<open>ErrorResponse 400 "Not your turn"\<close> when
  the acting player is a player of the game, and \<open>ErrorResponse 404 "Game g not found"\<close>
  when the acting player is not one of its players.
\<close>

theorem not_active_player_rejected:
  assumes na: "u \<noteq> lg_app_user (last (game_log_of d g))"
  shows "(\<exists>e. applyAction rnd d g u req = (Inl e, d)) \<and>
         (game_lookup_error d g = None \<and> game_order_ok 0 (users_of d g) \<and>
          game_log_of d g \<noteq> [] \<and> lg_app_user (last (game_log_of d g)) \<in> players d g \<longrightarrow>
          applyAction rnd d g u req =
            (Inl (if u \<in> players d g then ErrorResponse 400 ''Not your turn''
                  else ErrorResponse 404 (''Game '' @ g @ '' not found'')), d))"
proof
  obtain e where "load_turn d g u = Inl e"
    using load_turn_actor[of d g u] na by (cases "load_turn d g u") auto
  then show "\<exists>e. applyAction rnd d g u req = (Inl e, d)"
    using applyAction_load_error by blast
next
  show "game_lookup_error d g = None \<and> game_order_ok 0 (users_of d g) \<and>
          game_log_of d g \<noteq> [] \<and> lg_app_user (last (game_log_of d g)) \<in> players d g \<longrightarrow>
          applyAction rnd d g u req =
            (Inl (if u \<in> players d g then ErrorResponse 400 ''Not your turn''
                  else ErrorResponse 404 (''Game '' @ g @ '' not found'')), d)"
  proof
    assume h: "game_lookup_error d g = None \<and> game_order_ok 0 (users_of d g) \<and>
          game_log_of d g \<noteq> [] \<and> lg_app_user (last (game_log_of d g)) \<in> players d g"
    let ?p = "lg_app_user (last (game_log_of d g))"
    show "applyAction rnd d g u req =
            (Inl (if u \<in> players d g then ErrorResponse 400 ''Not your turn''
                  else ErrorResponse 404 (''Game '' @ g @ '' not found'')), d)"
    proof (cases "u \<in> players d g")
      case True
      from h obtain x where x: "find (\<lambda>user. gu_app_user user = ?p) (users_of d g) = Some x"
        using find_player by blast
      from True obtain y where y: "find (\<lambda>user. gu_app_user user = u) (users_of d g) = Some y"
        using find_player by blast
      have px: "gu_app_user x = ?p" using x by (auto simp: find_Some_iff)
      have n: "nth_int (users_of d g) (gu_game_order x) = Some x"
        using find_nth_int h x by blast
      have "load_turn d g u = Inl (ErrorResponse 400 ''Not your turn'')"
        using h x y n px na by (simp add: load_turn_def Let_def)
      then have "applyAction rnd d g u req = (Inl (ErrorResponse 400 ''Not your turn''), d)"
        by (rule applyAction_load_error)
      with True show ?thesis by simp
    next
      case False
      have "load_turn d g u = Inl (ErrorResponse 404 (''Game '' @ g @ '' not found''))"
        using h find_outsider[OF False] by (simp add: load_turn_def Let_def)
      then have "applyAction rnd d g u req
                   = (Inl (ErrorResponse 404 (''Game '' @ g @ '' not found'')), d)"
        by (rule applyAction_load_error)
      with False show ?thesis by simp
    qed
  qed
qed

theorem not_active_player_rejected_witness:
  "''u2'' \<noteq> lg_app_user (last (game_log_of ex_outsider ''g'')) \<and>
   ''u2'' \<in> players ex_outsider ''g'' \<and>
   applyAction ex_rnd ex_outsider ''g'' ''u2'' (ex_play ELIMINATE ''k2'')
     = (Inl (ErrorResponse 400 ''Not your turn''), ex_outsider) \<and>
   ''u3'' \<noteq> lg_app_user (last (game_log_of ex_outsider ''g'')) \<and>
   ''u3'' \<notin> players ex_outsider ''g'' \<and>
   applyAction ex_rnd ex_outsider ''g'' ''u3'' (ex_play ELIMINATE ''k2'')
     = (Inl (ErrorResponse 404 (''Game '' @ ''g'' @ '' not found'')), ex_outsider)"
proof -
  have a2: "''u2'' \<noteq> lg_app_user (last (game_log_of ex_outsider ''g''))" by code_simp
  have a3: "''u3'' \<noteq> lg_app_user (last (game_log_of ex_outsider ''g''))" by code_simp
  have b: "game_lookup_error ex_outsider ''g'' = None" by code_simp
  have c: "game_order_ok 0 (users_of ex_outsider ''g'')" by code_simp
  have d: "game_log_of ex_outsider ''g'' \<noteq> []" by code_simp
  have e: "lg_app_user (last (game_log_of ex_outsider ''g'')) \<in> players ex_outsider ''g''"
    by code_simp
  have f2: "''u2'' \<in> players ex_outsider ''g''" by code_simp
  have f3: "''u3'' \<notin> players ex_outsider ''g''" by code_simp
  have r2: "applyAction ex_rnd ex_outsider ''g'' ''u2'' (ex_play ELIMINATE ''k2'')
     = (Inl (ErrorResponse 400 ''Not your turn''), ex_outsider)"
    using not_active_player_rejected [OF a2, of ex_rnd "ex_play ELIMINATE ''k2''"] b c d e f2
    by simp
  have r3: "applyAction ex_rnd ex_outsider ''g'' ''u3'' (ex_play ELIMINATE ''k2'')
     = (Inl (ErrorResponse 404 (''Game '' @ ''g'' @ '' not found'')), ex_outsider)"
    using not_active_player_rejected [OF a3, of ex_rnd "ex_play ELIMINATE ''k2''"] b c d e f3
    by simp
  from a2 f2 r2 a3 f3 r3 show ?thesis by blast
qed

subsection \<open>The shape of a run of the handler\<close>

lemma applyAction_shape:
  assumes "applyAction rnd d g u req = (res, d')"
  shows "(isl res \<and> d' = d) \<or>
     (\<exists>ctx cl. load_turn d g u = Inr ctx \<and> characterLocation_of d g req = Inr cl \<and>
        (tc_turnCount ctx = 1 \<or> tc_turnCount ctx = 2) \<and>
        move_phase d g u req ctx cl = (res, d')) \<or>
     (\<exists>ctx cl cid cc ct r d1 pos.
        load_turn d g u = Inr ctx \<and> characterLocation_of d g req = Inr cl \<and>
        (tc_turnCount ctx = 3 \<or> tc_turnCount ctx = 4) \<and>
        select_slot d g u req ctx = Inr (cid, cc, ct) \<and>
        resolve_action rnd d g u (tc_nextLogId ctx) cid req cl cc ct = (r, d1, pos) \<and>
        (case r of Inl e \<Rightarrow> res = Inl e \<and> d' = d1
                 | Inr ar \<Rightarrow> after_action rnd pos d1 g u ctx cid ar = (res, d')))"
proof (cases "load_turn d g u")
  case (Inl e)
  with assms show ?thesis by (auto simp: applyAction_def)
next
  case ctx: (Inr ctx)
  show ?thesis
  proof (cases "characterLocation_of d g req")
    case (Inl e)
    with assms ctx show ?thesis by (auto simp: applyAction_def)
  next
    case cl: (Inr cl)
    show ?thesis
    proof (cases "moveTo_bad req")
      case True
      with assms ctx cl show ?thesis by (auto simp: applyAction_def)
    next
      case nb: False
      consider (m) "tc_turnCount ctx = 1 \<or> tc_turnCount ctx = 2"
        | (c) "tc_turnCount ctx = 3 \<or> tc_turnCount ctx = 4"
        | (o) "tc_turnCount ctx \<noteq> 1" "tc_turnCount ctx \<noteq> 2" "tc_turnCount ctx \<noteq> 3"
              "tc_turnCount ctx \<noteq> 4"
        by blast
      then show ?thesis
      proof cases
        case m
        with assms ctx cl nb have "move_phase d g u req ctx cl = (res, d')"
          by (auto simp: applyAction_def)
        with ctx cl m show ?thesis by blast
      next
        case c
        with assms ctx cl nb have cp: "card_phase rnd d g u req ctx cl = (res, d')"
          by (auto simp: applyAction_def)
        show ?thesis
        proof (cases "select_slot d g u req ctx")
          case (Inl e)
          with cp show ?thesis by (auto simp: card_phase_def)
        next
          case (Inr x)
          obtain cid cc ct where x: "x = (cid, cc, ct)" by (cases x) auto
          obtain r d1 pos where
            rs: "resolve_action rnd d g u (tc_nextLogId ctx) cid req cl cc ct = (r, d1, pos)"
            by (cases "resolve_action rnd d g u (tc_nextLogId ctx) cid req cl cc ct") auto
          have "case r of Inl e \<Rightarrow> res = Inl e \<and> d' = d1
                 | Inr ar \<Rightarrow> after_action rnd pos d1 g u ctx cid ar = (res, d')"
            using cp Inr x rs by (cases r) (auto simp: card_phase_def)
          with ctx cl c Inr x rs show ?thesis by blast
        qed
      next
        case o
        with assms ctx cl nb show ?thesis by (auto simp: applyAction_def)
      qed
    qed
  qed
qed

subsection \<open>Token conservation\<close>

lemma sum_bumped:
  assumes "\<And>r. P r \<Longrightarrow> Q r = c" "\<And>r v. Q (r\<lparr>gut_count := v\<rparr>) = Q r"
  shows "sum_list (map gut_count
            (filter Q (map (\<lambda>r. if P r then r\<lparr>gut_count := gut_count r + 1\<rparr> else r) xs)))
         = sum_list (map gut_count (filter Q xs)) + (if c then int (length (filter P xs)) else 0)"
  using assms by (induction xs) auto

lemma sum_dropped:
  assumes "\<And>r. P r \<Longrightarrow> Q r = c" "\<And>r v. Q (r\<lparr>gt_count := v\<rparr>) = Q r"
  shows "sum_list (map gt_count
            (filter Q (map (\<lambda>r. if P r then r\<lparr>gt_count := gt_count r - 1\<rparr> else r) xs)))
         = sum_list (map gt_count (filter Q xs)) - (if c then int (length (filter P xs)) else 0)"
  using assms by (induction xs) auto

lemma holding_rows_one:
  assumes "token_tables_ok d g" "list_ex (holding_key g u t) (game_user_token d)"
  shows "length (filter (holding_key g u t) (game_user_token d)) = 1"
proof -
  from assms(2) obtain r where r: "r \<in> set (game_user_token d)" "holding_key g u t r"
    by (auto simp: list_ex_iff)
  then have "gut_game r = g" "gut_app_user r = u" "gut_token r = t"
    by (auto simp: holding_key_def)
  with assms(1) r(1) show ?thesis
    by (auto simp: token_tables_ok_def list_all_iff)
qed

lemma stock_rows_one:
  assumes "token_tables_ok d g" "stock_rows d g t \<noteq> []"
  shows "length (stock_rows d g t) = 1"
proof -
  from assms(2) obtain r where r: "r \<in> set (stock_rows d g t)"
    by (cases "stock_rows d g t") auto
  then have "r \<in> set (game_token d)" "gt_game r = g" "gt_token r = t"
    by (auto simp: stock_rows_def)
  with assms(1) show ?thesis
    by (auto simp: token_tables_ok_def list_all_iff)
qed

lemma holdings_increment:
  assumes ok: "token_tables_ok d g"
  shows "holdings (increment_user_token d g u t) g t' = holdings d g t' + (if t' = t then 1 else 0)"
proof (cases "list_ex (holding_key g u t) (game_user_token d)")
  case True
  have "sum_list (map gut_count
            (filter (\<lambda>r. gut_game r = g \<and> gut_token r = t')
               (map (\<lambda>r. if holding_key g u t r then r\<lparr>gut_count := gut_count r + 1\<rparr> else r)
                    (game_user_token d))))
         = sum_list (map gut_count (filter (\<lambda>r. gut_game r = g \<and> gut_token r = t') (game_user_token d)))
           + (if t' = t then int (length (filter (holding_key g u t) (game_user_token d))) else 0)"
    by (rule sum_bumped) (auto simp: holding_key_def)
  with True holding_rows_one[OF ok True] show ?thesis
    by (simp add: holdings_def increment_user_token_def)
next
  case False
  then show ?thesis by (simp add: holdings_def increment_user_token_def)
qed

lemma holding_increment:
  assumes ok: "token_tables_ok d g"
  shows "holding (increment_user_token d g u t) g u t = holding d g u t + 1"
proof (cases "list_ex (holding_key g u t) (game_user_token d)")
  case True
  have "sum_list (map gut_count
            (filter (holding_key g u t)
               (map (\<lambda>r. if holding_key g u t r then r\<lparr>gut_count := gut_count r + 1\<rparr> else r)
                    (game_user_token d))))
         = sum_list (map gut_count (filter (holding_key g u t) (game_user_token d)))
           + (if True then int (length (filter (holding_key g u t) (game_user_token d))) else 0)"
    by (rule sum_bumped) (auto simp: holding_key_def)
  with True holding_rows_one[OF ok True] show ?thesis
    by (simp add: holding_def increment_user_token_def)
next
  case False
  then show ?thesis by (simp add: holding_def increment_user_token_def holding_key_def)
qed

lemma stock_decrement:
  assumes "length (stock_rows d g t) = 1"
  shows "stock (decrement_stock d g t) g t' = stock d g t' - (if t' = t then 1 else 0)"
proof -
  have "sum_list (map gt_count
            (filter (\<lambda>r. gt_game r = g \<and> gt_token r = t')
               (map (\<lambda>r. if gt_game r = g \<and> gt_token r = t then r\<lparr>gt_count := gt_count r - 1\<rparr> else r)
                    (game_token d))))
         = sum_list (map gt_count (filter (\<lambda>r. gt_game r = g \<and> gt_token r = t') (game_token d)))
           - (if t' = t then int (length (filter (\<lambda>r. gt_game r = g \<and> gt_token r = t) (game_token d))) else 0)"
    by (rule sum_dropped) auto
  with assms show ?thesis
    by (simp add: stock_def decrement_stock_def stock_rows_def)
qed

lemma take_token_counts:
  assumes ok: "token_tables_ok d g" and st: "stock_rows d g t \<noteq> []"
  shows "stock (decrement_stock (increment_user_token d g u t) g t) g t'
           = stock d g t' - (if t' = t then 1 else 0)"
    and "holdings (decrement_stock (increment_user_token d g u t) g t) g t'
           = holdings d g t' + (if t' = t then 1 else 0)"
    and "holding (decrement_stock (increment_user_token d g u t) g t) g u t
           = holding d g u t + 1"
proof -
  have gt: "game_token (increment_user_token d g u t) = game_token d"
    by (simp add: increment_user_token_def)
  have sr: "stock_rows (increment_user_token d g u t) g t = stock_rows d g t"
    by (simp add: stock_rows_def gt)
  have s0: "stock (increment_user_token d g u t) g t' = stock d g t'"
    by (simp add: stock_def gt)
  have "length (stock_rows (increment_user_token d g u t) g t) = 1"
    using stock_rows_one[OF ok st] sr by simp
  from stock_decrement[OF this]
  show "stock (decrement_stock (increment_user_token d g u t) g t) g t'
           = stock d g t' - (if t' = t then 1 else 0)"
    by (simp add: s0)
  have ut: "game_user_token (decrement_stock d' g t) = game_user_token d'" for d'
    by (simp add: decrement_stock_def)
  show "holdings (decrement_stock (increment_user_token d g u t) g t) g t'
           = holdings d g t' + (if t' = t then 1 else 0)"
    using holdings_increment[OF ok, of u t t']
    by (simp add: holdings_def ut)
  show "holding (decrement_stock (increment_user_token d g u t) g t) g u t
           = holding d g u t + 1"
    using holding_increment[OF ok, of u t]
    by (simp add: holding_def ut)
qed

lemma token_tables_ok_cong:
  assumes "game_token d' = game_token d" "game_user_token d' = game_user_token d"
    "game_token_location d' = game_token_location d" "game_card d' = game_card d"
  shows "token_tables_ok d' g = token_tables_ok d g"
proof -
  have "stock_rows d' g t = stock_rows d g t" for t
    using assms(1) by (simp add: stock_rows_def)
  then show ?thesis using assms by (simp add: token_tables_ok_def cong: option.case_cong)
qed

lemma after_action_token_tables:
  "game_token (snd (after_action rnd pos d g u ctx cid ar)) = game_token d \<and>
   game_user_token (snd (after_action rnd pos d g u ctx cid ar)) = game_user_token d"
  by (simp add: after_action_def next_turn_def set_stage_def insert_log_def discard_def draw_def
        Let_def split: prod.splits list.splits)

lemma hand_cards_member:
  assumes "hand_cards d g cid u = crd # rest"
  shows "crd \<in> set (game_card d) \<and> cd_game crd = g \<and> cd_id crd = cid"
proof -
  have "crd \<in> set (hand_cards d g cid u)" using assms by simp
  then show ?thesis by (auto simp: hand_cards_def split: if_splits)
qed

lemma select_slot_token:
  assumes ok: "token_tables_ok d g"
    and sl: "select_slot d g u req ctx = Inr (cid, cc, Some t)"
  shows "stock_rows d g t \<noteq> []"
proof -
  from sl obtain crd rest where h: "hand_cards d g cid u = crd # rest"
      and t: "cd_token1 crd = Some t \<or> cd_token2 crd = Some t"
    by (auto simp: select_slot_def split: if_splits option.splits list.splits)
  from hand_cards_member[OF h] ok t show ?thesis
    by (auto simp: token_tables_ok_def list_all_iff)
qed

lemma token_location_stock:
  assumes ok: "token_tables_ok d g" and "token_location_rows d g t u \<noteq> []"
  shows "stock_rows d g t \<noteq> []"
proof -
  from assms(2) obtain l where "l \<in> set (game_token_location d)" "gtl_game l = g" "gtl_token l = t"
    by (auto simp: token_location_rows_def filter_empty_conv)
  with ok show ?thesis by (auto simp: token_tables_ok_def list_all_iff)
qed

lemma resolve_token_action:
  assumes ok: "token_tables_ok d g"
    and ty: "rq_type req = PICK_TOKEN \<or> rq_type req = SPECIFIC_TOKEN"
    and sl: "select_slot d g u req ctx = Inr (cid, cc, ct)"
    and rs: "resolve_action rnd d g u n cid req cl cc ct = (r, d1, pos)"
  shows "(\<exists>e. r = Inl e \<and> d1 = d) \<or>
         (r = Inr RNone \<and>
          (\<exists>tok row. stock_rows d g tok \<noteq> [] \<and>
             d1 = decrement_stock (increment_user_token (insert_log d row) g u tok) g tok))"
  using ty
proof
  assume "rq_type req = PICK_TOKEN"
  with rs ok show ?thesis
    by (auto simp: resolve_action_def resolve_PICK_TOKEN_def dest: token_location_stock
             split: option.splits if_splits)
next
  assume "rq_type req = SPECIFIC_TOKEN"
  with rs select_slot_token[OF ok, of u req ctx cid cc] sl show ?thesis
    by (auto simp: resolve_action_def resolve_SPECIFIC_TOKEN_def truthy_def
             split: option.splits if_splits)
qed

lemma move_phase_token_tables:
  "game_token (snd (move_phase d g u req ctx cl)) = game_token d \<and>
   game_user_token (snd (move_phase d g u req ctx cl)) = game_user_token d"
  by (simp add: move_phase_def set_location_def insert_log_def
        split: option.splits)

lemma insert_log_token_tables:
  "game_token (insert_log d row) = game_token d"
  "game_user_token (insert_log d row) = game_user_token d"
  "game_token_location (insert_log d row) = game_token_location d"
  "game_card (insert_log d row) = game_card d"
  by (simp_all add: insert_log_def)

text \<open>
  C5.  Token conservation.  In a game whose token tables respect their keys, a PICK_TOKEN or
  SPECIFIC_TOKEN request leaves, for every token, the stock plus what all players hold
  unchanged, whatever the outcome of the call; when the request is accepted, the acting
  player's holding of the token taken grows by exactly 1, that token's stock shrinks by
  exactly 1, and no other token moves.
\<close>

theorem token_conservation:
  assumes ok: "token_tables_ok d g"
    and ty: "rq_type req = PICK_TOKEN \<or> rq_type req = SPECIFIC_TOKEN"
    and run: "applyAction rnd d g u req = (res, d')"
  shows "(\<forall>t. stock d' g t + holdings d' g t = stock d g t + holdings d g t) \<and>
         (\<forall>r. res = Inr r \<longrightarrow>
            (\<exists>tok. holding d' g u tok = holding d g u tok + 1 \<and>
                   stock d' g tok = stock d g tok - 1 \<and>
                   (\<forall>t. t \<noteq> tok \<longrightarrow> stock d' g t = stock d g t \<and>
                                     holdings d' g t = holdings d g t)))"
proof -
  consider (unchanged) "isl res" "d' = d"
    | (moved) ctx cl where "tc_turnCount ctx = 1 \<or> tc_turnCount ctx = 2"
        "move_phase d g u req ctx cl = (res, d')"
    | (played) ctx cl cid cc ct r d1 pos where
        "select_slot d g u req ctx = Inr (cid, cc, ct)"
        "resolve_action rnd d g u (tc_nextLogId ctx) cid req cl cc ct = (r, d1, pos)"
        "case r of Inl e \<Rightarrow> res = Inl e \<and> d' = d1
                 | Inr ar \<Rightarrow> after_action rnd pos d1 g u ctx cid ar = (res, d')"
    using applyAction_shape[OF run] by blast
  then show ?thesis
  proof cases
    case unchanged
    then show ?thesis by (cases res) auto
  next
    case moved
    have "isl res \<and> d' = d" using moved(2) ty
      by (auto simp: move_phase_def)
    then show ?thesis by (cases res) auto
  next
    case played
    from resolve_token_action[OF ok ty played(1,2)]
    consider (failed) e where "r = Inl e" "d1 = d"
      | (taken) tok row where "r = Inr RNone" "stock_rows d g tok \<noteq> []"
          "d1 = decrement_stock (increment_user_token (insert_log d row) g u tok) g tok"
      by blast
    then show ?thesis
    proof cases
      case failed
      with played(3) have "isl res \<and> d' = d" by simp
      then show ?thesis by (cases res) auto
    next
      case taken
      let ?d0 = "insert_log d row"
      have ok0: "token_tables_ok ?d0 g"
        using ok token_tables_ok_cong[of ?d0 d g] by (simp add: insert_log_token_tables)
      have st0: "stock_rows ?d0 g tok \<noteq> []"
        using taken(2) by (simp add: stock_rows_def insert_log_token_tables)
      have c0: "stock ?d0 g t = stock d g t" "holdings ?d0 g t = holdings d g t"
               "holding ?d0 g u t = holding d g u t" for t
        by (simp_all add: stock_def holdings_def holding_def insert_log_token_tables)
      have d'1: "game_token d' = game_token d1 \<and> game_user_token d' = game_user_token d1"
        using played(3) taken(1) after_action_token_tables[of rnd pos d1 g u ctx cid RNone]
        by simp
      have c1: "stock d' g t = stock d1 g t" "holdings d' g t = holdings d1 g t"
               "holding d' g u t = holding d1 g u t" for t
        by (simp_all add: stock_def holdings_def holding_def d'1)
      have s: "stock d' g t = stock d g t - (if t = tok then 1 else 0)" for t
        using take_token_counts(1)[OF ok0 st0, of u t] by (simp add: c1 c0 taken(3))
      have h: "holdings d' g t = holdings d g t + (if t = tok then 1 else 0)" for t
        using take_token_counts(2)[OF ok0 st0, of u t] by (simp add: c1 c0 taken(3))
      have k: "holding d' g u tok = holding d g u tok + 1"
        using take_token_counts(3)[OF ok0 st0, of u] by (simp add: c1 c0 taken(3))
      have "\<exists>tok. holding d' g u tok = holding d g u tok + 1 \<and>
                   stock d' g tok = stock d g tok - 1 \<and>
                   (\<forall>t. t \<noteq> tok \<longrightarrow> stock d' g t = stock d g t \<and>
                                     holdings d' g t = holdings d g t)"
        using s h k by (intro exI[of _ tok]) simp
      moreover have "\<forall>t. stock d' g t + holdings d' g t = stock d g t + holdings d g t"
        using s h by simp
      ultimately show ?thesis by blast
    qed
  qed
qed

theorem token_conservation_witness:
  "token_tables_ok (ex_db PLAYING ex_log3) ''g'' \<and>
   fst (applyAction (\<lambda>i. 0) (ex_db PLAYING ex_log3) ''g'' ''u1'' (ex_play SPECIFIC_TOKEN ''k2''))
     = Inr RNone \<and>
   stock (ex_db PLAYING ex_log3) ''g'' ''t2'' + holdings (ex_db PLAYING ex_log3) ''g'' ''t2'' = 2 \<and>
   stock (snd (applyAction (\<lambda>i. 0) (ex_db PLAYING ex_log3) ''g'' ''u1''
                 (ex_play SPECIFIC_TOKEN ''k2''))) ''g'' ''t2'' +
   holdings (snd (applyAction (\<lambda>i. 0) (ex_db PLAYING ex_log3) ''g'' ''u1''
                 (ex_play SPECIFIC_TOKEN ''k2''))) ''g'' ''t2'' = 2"
proof -
  let ?run = "applyAction (\<lambda>i. 0) (ex_db PLAYING ex_log3) ''g'' ''u1'' (ex_play SPECIFIC_TOKEN ''k2'')"
  have ok: "token_tables_ok (ex_db PLAYING ex_log3) ''g''" by code_simp
  have ty: "rq_type (ex_play SPECIFIC_TOKEN ''k2'') = PICK_TOKEN \<or>
            rq_type (ex_play SPECIFIC_TOKEN ''k2'') = SPECIFIC_TOKEN"
    by (simp add: ex_play_def ex_request_def)
  have run: "?run = (fst ?run, snd ?run)" by simp
  have acc: "fst ?run = Inr RNone" by code_simp
  have before: "stock (ex_db PLAYING ex_log3) ''g'' ''t2'' +
                holdings (ex_db PLAYING ex_log3) ''g'' ''t2'' = 2" by code_simp
  from token_conservation [OF ok ty run] before
  have "stock (snd ?run) ''g'' ''t2'' + holdings (snd ?run) ''g'' ''t2'' = 2" by simp
  with ok acc before show ?thesis by simp
qed

subsection \<open>ELIMINATE\<close>

lemma eliminable_subset: "set (eliminable d g) \<subseteq> set (uncontrolled d g)"
  by (auto simp: eliminable_def uncontrolled_def characters_of_def controlled_def)

lemma eliminable_reset: "eliminable (reset_eliminated d g) g = uncontrolled d g"
proof -
  have "map gc_character
          (filter (\<lambda>c. gc_game c = g \<and> \<not> gc_eliminated c \<and> gc_character c \<notin> S)
             (map (\<lambda>c. if gc_game c = g then c\<lparr>gc_eliminated := False\<rparr> else c) xs))
        = filter (\<lambda>c. c \<notin> S) (map gc_character (filter (\<lambda>c. gc_game c = g) xs))" for S xs
    by (induction xs) auto
  then show ?thesis
    by (simp add: eliminable_def reset_eliminated_def uncontrolled_def characters_of_def
          controlled_def)
qed

lemma pick_in_pool: "xs \<noteq> [] \<Longrightarrow> xs ! (k mod length xs) \<in> set xs"
  by simp

lemma set_eliminated_is_eliminated:
  assumes "c \<in> set (characters_of d g)"
  shows "is_eliminated (set_eliminated (insert_log d row) g c) g c"
proof -
  have "map gc_character (filter (\<lambda>r. gc_game r = g)
          (map (\<lambda>r. if gc_game r = g \<and> gc_character r = c then r\<lparr>gc_eliminated := True\<rparr> else r) xs))
        = map gc_character (filter (\<lambda>r. gc_game r = g) xs)" for xs
    by (induction xs) auto
  then have "characters_of (set_eliminated (insert_log d row) g c) g = characters_of d g"
    by (simp add: characters_of_def set_eliminated_def insert_log_def)
  moreover have "list_all (\<lambda>r. gc_game r = g \<and> gc_character r = c \<longrightarrow> gc_eliminated r)
          (map (\<lambda>r. if gc_game r = g \<and> gc_character r = c then r\<lparr>gc_eliminated := True\<rparr> else r) xs)"
    for xs by (induction xs) auto
  ultimately show ?thesis using assms
    by (simp add: is_eliminated_def set_eliminated_def insert_log_def)
qed

lemma characters_of_reset: "characters_of (reset_eliminated d g) g = characters_of d g"
proof -
  have "map gc_character (filter (\<lambda>r. gc_game r = g)
          (map (\<lambda>r. if gc_game r = g then r\<lparr>gc_eliminated := False\<rparr> else r) xs))
        = map gc_character (filter (\<lambda>r. gc_game r = g) xs)" for xs
    by (induction xs) auto
  then show ?thesis by (simp add: characters_of_def reset_eliminated_def)
qed

lemma uncontrolled_characters: "set (uncontrolled d g) \<subseteq> set (characters_of d g)"
  by (auto simp: uncontrolled_def)

lemma uncontrolled_exists:
  assumes "distinct (characters_of d g)" "length (controlled d g) < length (characters_of d g)"
  shows "uncontrolled d g \<noteq> []"
proof
  assume "uncontrolled d g = []"
  then have "set (characters_of d g) \<subseteq> set (controlled d g)"
    by (auto simp: uncontrolled_def filter_empty_conv)
  then have "card (set (characters_of d g)) \<le> card (set (controlled d g))"
    by (intro card_mono) auto
  moreover have "card (set (characters_of d g)) = length (characters_of d g)"
    using assms(1) by (rule distinct_card)
  moreover have "card (set (controlled d g)) \<le> length (controlled d g)"
    by (rule card_length)
  ultimately show False using assms(2) by linarith
qed

lemma getCharacterId_empty:
  "eliminable d g = [] \<Longrightarrow> getCharacterId rnd pos d g = (None, pos)"
  by (simp add: getCharacterId_def)

lemma getCharacterId_pick:
  "eliminable d g \<noteq> [] \<Longrightarrow>
   getCharacterId rnd pos d g = (Some (eliminable d g ! (rnd pos mod length (eliminable d g))), pos + 1)"
  by (simp add: getCharacterId_def Let_def)

lemma resolve_ELIMINATE_reset:
  assumes g1: "getCharacterId rnd pos d g = (None, pos)"
    and g2: "getCharacterId rnd pos (reset_eliminated d g) g = (Some c, p)"
    and ne: "c \<noteq> []"
  shows "resolve_ELIMINATE rnd pos d g u n cid =
           (Inr (RChar c),
            set_eliminated (insert_log (reset_eliminated d g) (eliminate_log g n u cid c)) g c, p)"
  apply (simp only: resolve_ELIMINATE_def g1 Let_def split_conv)
  apply (simp only: truthy_def option.case if_False g2 Let_def split_conv)
  apply (simp add: ne eliminate_log_def)
  done

lemma resolve_ELIMINATE_direct:
  assumes g1: "getCharacterId rnd pos d g = (Some c, p)"
    and ne: "c \<noteq> []"
  shows "resolve_ELIMINATE rnd pos d g u n cid =
           (Inr (RChar c), set_eliminated (insert_log d (eliminate_log g n u cid c)) g c, p)"
  apply (simp only: resolve_ELIMINATE_def g1 Let_def split_conv)
  apply (simp add: truthy_def ne eliminate_log_def)
  done

text \<open>
  C8.  ELIMINATE returns an eliminated character and cannot block (the resolver is a total
  function without a loop).  When the game has an uncontrolled character, it returns one:
  the character at the drawn index among those neither eliminated nor controlled by a
  player; when there is none of those, every \<open>eliminated\<close> flag of the game is first reset
  and the draw is made among all uncontrolled characters, which cannot fail.  The returned
  character is marked eliminated in the resulting state.  A game with more (distinct)
  characters than players, such as 10 characters and 2 to 6 players, always has an
  uncontrolled character.
\<close>

theorem eliminate_returns_character:
  "(uncontrolled d g \<noteq> [] \<and> [] \<notin> set (uncontrolled d g) \<longrightarrow>
      (\<exists>c. c \<in> set (uncontrolled d g) \<and>
           c = (if eliminable d g = [] then uncontrolled d g ! (rnd pos mod length (uncontrolled d g))
                else eliminable d g ! (rnd pos mod length (eliminable d g))) \<and>
           resolve_ELIMINATE rnd pos d g u n cid =
             (Inr (RChar c),
              set_eliminated
                (insert_log (if eliminable d g = [] then reset_eliminated d g else d)
                            (eliminate_log g n u cid c)) g c,
              pos + 1) \<and>
           is_eliminated (fst (snd (resolve_ELIMINATE rnd pos d g u n cid))) g c)) \<and>
   (distinct (characters_of d g) \<and> length (controlled d g) < length (characters_of d g) \<longrightarrow>
      uncontrolled d g \<noteq> [])"
proof (intro conjI impI)
  assume h: "uncontrolled d g \<noteq> [] \<and> [] \<notin> set (uncontrolled d g)"
  show "\<exists>c. c \<in> set (uncontrolled d g) \<and>
           c = (if eliminable d g = [] then uncontrolled d g ! (rnd pos mod length (uncontrolled d g))
                else eliminable d g ! (rnd pos mod length (eliminable d g))) \<and>
           resolve_ELIMINATE rnd pos d g u n cid =
             (Inr (RChar c),
              set_eliminated
                (insert_log (if eliminable d g = [] then reset_eliminated d g else d)
                            (eliminate_log g n u cid c)) g c,
              pos + 1) \<and>
           is_eliminated (fst (snd (resolve_ELIMINATE rnd pos d g u n cid))) g c"
  proof (cases "eliminable d g = []")
    case True
    let ?c = "uncontrolled d g ! (rnd pos mod length (uncontrolled d g))"
    have in_pool: "?c \<in> set (uncontrolled d g)" using h pick_in_pool by blast
    then have ne: "?c \<noteq> []" using h by metis
    have run: "resolve_ELIMINATE rnd pos d g u n cid =
             (Inr (RChar ?c),
              set_eliminated (insert_log (reset_eliminated d g) (eliminate_log g n u cid ?c)) g ?c,
              pos + 1)"
    proof -
      have g1: "getCharacterId rnd pos d g = (None, pos)"
        using True by (rule getCharacterId_empty)
      have g2: "getCharacterId rnd pos (reset_eliminated d g) g = (Some ?c, pos + 1)"
        using getCharacterId_pick[of "reset_eliminated d g" g rnd pos] h
        by (simp add: eliminable_reset)
      show ?thesis by (rule resolve_ELIMINATE_reset[OF g1 g2 ne])
    qed
    have "?c \<in> set (characters_of (reset_eliminated d g) g)"
      using in_pool uncontrolled_characters characters_of_reset by fastforce
    then have "is_eliminated (set_eliminated (insert_log (reset_eliminated d g)
                  (eliminate_log g n u cid ?c)) g ?c) g ?c"
      by (rule set_eliminated_is_eliminated)
    then have "is_eliminated (fst (snd (resolve_ELIMINATE rnd pos d g u n cid))) g ?c"
      by (simp only: run fst_conv snd_conv)
    with in_pool run show ?thesis
      by (intro exI[of _ ?c]) (simp only: True if_True simp_thms)
  next
    case False
    let ?c = "eliminable d g ! (rnd pos mod length (eliminable d g))"
    have in_el: "?c \<in> set (eliminable d g)" using False pick_in_pool by blast
    then have in_pool: "?c \<in> set (uncontrolled d g)" using eliminable_subset by blast
    then have ne: "?c \<noteq> []" using h by metis
    have run: "resolve_ELIMINATE rnd pos d g u n cid =
             (Inr (RChar ?c),
              set_eliminated (insert_log d (eliminate_log g n u cid ?c)) g ?c, pos + 1)"
    proof -
      have g1: "getCharacterId rnd pos d g = (Some ?c, pos + 1)"
        using False by (rule getCharacterId_pick)
      show ?thesis by (rule resolve_ELIMINATE_direct[OF g1 ne])
    qed
    have "?c \<in> set (characters_of d g)"
      using in_pool uncontrolled_characters by blast
    then have "is_eliminated (set_eliminated (insert_log d (eliminate_log g n u cid ?c)) g ?c) g ?c"
      by (rule set_eliminated_is_eliminated)
    then have "is_eliminated (fst (snd (resolve_ELIMINATE rnd pos d g u n cid))) g ?c"
      by (simp only: run fst_conv snd_conv)
    with in_pool run show ?thesis
      by (intro exI[of _ ?c]) (simp only: False if_False simp_thms)
  qed
next
  assume "distinct (characters_of d g) \<and> length (controlled d g) < length (characters_of d g)"
  then show "uncontrolled d g \<noteq> []" using uncontrolled_exists by blast
qed

theorem eliminate_returns_character_witness:
  "uncontrolled ex_eliminated ''g'' = [''c3'', ''c4''] \<and>
   eliminable ex_eliminated ''g'' = [] \<and>
   fst (resolve_ELIMINATE (\<lambda>i. 1) 0 ex_eliminated ''g'' ''u1'' 3 ''k2'') = Inr (RChar ''c4'') \<and>
   is_eliminated (fst (snd (resolve_ELIMINATE (\<lambda>i. 1) 0 ex_eliminated ''g'' ''u1'' 3 ''k2''))) ''g'' ''c4'' \<and>
   eliminable (ex_db PLAYING ex_log3) ''g'' = [''c3'', ''c4''] \<and>
   fst (resolve_ELIMINATE (\<lambda>i. 0) 0 (ex_db PLAYING ex_log3) ''g'' ''u1'' 3 ''k2'') = Inr (RChar ''c3'')"
proof -
  have u1: "uncontrolled ex_eliminated ''g'' = [''c3'', ''c4'']" by code_simp
  have e1: "eliminable ex_eliminated ''g'' = []" by code_simp
  from eliminate_returns_character [of ex_eliminated "''g''" "\<lambda>i. 1" 0 "''u1''" 3 "''k2''"]
  obtain c where c: "c = [''c3'', ''c4''] ! (1 mod 2)"
      "fst (resolve_ELIMINATE (\<lambda>i. 1) 0 ex_eliminated ''g'' ''u1'' 3 ''k2'') = Inr (RChar c)"
      "is_eliminated (fst (snd (resolve_ELIMINATE (\<lambda>i. 1) 0 ex_eliminated ''g'' ''u1'' 3 ''k2''))) ''g'' c"
    by (auto simp: u1 e1)
  have c4: "c = ''c4''" using c(1) by simp
  have u2: "uncontrolled (ex_db PLAYING ex_log3) ''g'' = [''c3'', ''c4'']" by code_simp
  have e2: "eliminable (ex_db PLAYING ex_log3) ''g'' = [''c3'', ''c4'']" by code_simp
  from eliminate_returns_character [of "ex_db PLAYING ex_log3" "''g''" "\<lambda>i. 0" 0 "''u1''" 3 "''k2''"]
  have r2: "fst (resolve_ELIMINATE (\<lambda>i. 0) 0 (ex_db PLAYING ex_log3) ''g'' ''u1'' 3 ''k2'') = Inr (RChar ''c3'')"
    by (auto simp: u2 e2)
  from u1 e1 c(2,3) c4 e2 r2 show ?thesis by simp
qed

subsection \<open>The stage is never read by the action handler\<close>

lemma reads_ignore_game:
  "users_of (d\<lparr>game := gs\<rparr>) g = users_of d g"
  "game_log_of (d\<lparr>game := gs\<rparr>) g = game_log_of d g"
  "getLocation (d\<lparr>game := gs\<rparr>) g c = getLocation d g c"
  "hand_cards (d\<lparr>game := gs\<rparr>) g cid u = hand_cards d g cid u"
  "eliminable (d\<lparr>game := gs\<rparr>) g = eliminable d g"
  "token_location_rows (d\<lparr>game := gs\<rparr>) g t u = token_location_rows d g t u"
  "minTokens (d\<lparr>game := gs\<rparr>) g = minTokens d g"
  "isFinished (d\<lparr>game := gs\<rparr>) g = isFinished d g"
  "next_users (d\<lparr>game := gs\<rparr>) g k = next_users d g k"
  "next_cards (d\<lparr>game := gs\<rparr>) g = next_cards d g"
  by (simp_all add: users_of_def game_log_of_def getLocation_def hand_cards_def eliminable_def
        token_location_rows_def minTokens_def isFinished_def next_users_def next_cards_def)

lemma reads_ignore_game2:
  "characterLocation_of (d\<lparr>game := gs\<rparr>) g req = characterLocation_of d g req"
  "select_slot (d\<lparr>game := gs\<rparr>) g u req ctx = select_slot d g u req ctx"
  "getCharacterId rnd pos (d\<lparr>game := gs\<rparr>) g = getCharacterId rnd pos d g"
  unfolding characterLocation_of_def select_slot_def getCharacterId_def reads_ignore_game
  by (rule refl)+

lemma writes_commute_game:
  "insert_log (d\<lparr>game := gs\<rparr>) row = (insert_log d row)\<lparr>game := gs\<rparr>"
  "set_location (d\<lparr>game := gs\<rparr>) g c m = (set_location d g c m)\<lparr>game := gs\<rparr>"
  "reset_eliminated (d\<lparr>game := gs\<rparr>) g = (reset_eliminated d g)\<lparr>game := gs\<rparr>"
  "set_eliminated (d\<lparr>game := gs\<rparr>) g c = (set_eliminated d g c)\<lparr>game := gs\<rparr>"
  "increment_user_token (d\<lparr>game := gs\<rparr>) g u t = (increment_user_token d g u t)\<lparr>game := gs\<rparr>"
  "decrement_stock (d\<lparr>game := gs\<rparr>) g t = (decrement_stock d g t)\<lparr>game := gs\<rparr>"
  "discard (d\<lparr>game := gs\<rparr>) g cid u = (discard d g cid u)\<lparr>game := gs\<rparr>"
  "draw (d\<lparr>game := gs\<rparr>) g cid u = (draw d g cid u)\<lparr>game := gs\<rparr>"
  by (simp_all add: insert_log_def set_location_def reset_eliminated_def set_eliminated_def
        increment_user_token_def decrement_stock_def discard_def draw_def)

lemma count_by_id:
  "map g_id xs = map g_id ys \<Longrightarrow>
   length (filter (\<lambda>r. g_id r = g) xs) = length (filter (\<lambda>r. g_id r = g) ys)"
proof (induction xs arbitrary: ys)
  case Nil
  then show ?case by simp
next
  case (Cons x xs)
  then obtain y ys' where "ys = y # ys'" by (cases ys) auto
  with Cons show ?case by auto
qed

lemma game_lookup_error_ids:
  assumes "map g_id gs = map g_id (game d)"
  shows "game_lookup_error (d\<lparr>game := gs\<rparr>) g = game_lookup_error d g"
proof -
  have l: "length (filter (\<lambda>r. g_id r = g) gs) = length (filter (\<lambda>r. g_id r = g) (game d))"
    using assms by (rule count_by_id)
  have e: "(xs = []) = (length xs = 0)" for xs :: "GameTable list" by simp
  show ?thesis
    unfolding game_lookup_error_def Let_def e by (simp add: l)
qed

lemma load_turn_ids:
  assumes "map g_id gs = map g_id (game d)"
  shows "load_turn (d\<lparr>game := gs\<rparr>) g u = load_turn d g u"
  unfolding load_turn_def game_lookup_error_ids[OF assms] reads_ignore_game
  by (rule refl)

lemma move_phase_game:
  "move_phase (d\<lparr>game := gs\<rparr>) g u req ctx cl
     = (fst (move_phase d g u req ctx cl), (snd (move_phase d g u req ctx cl))\<lparr>game := gs\<rparr>)"
  by (simp add: move_phase_def writes_commute_game split: option.splits)

lemma resolvers_game:
  "resolve_MOVE (d\<lparr>game := gs\<rparr>) g u n cid req cl
     = (fst (resolve_MOVE d g u n cid req cl), (snd (resolve_MOVE d g u n cid req cl))\<lparr>game := gs\<rparr>)"
  "resolve_PICK_TOKEN (d\<lparr>game := gs\<rparr>) g u n cid req
     = (fst (resolve_PICK_TOKEN d g u n cid req), (snd (resolve_PICK_TOKEN d g u n cid req))\<lparr>game := gs\<rparr>)"
  "resolve_SIGHT (d\<lparr>game := gs\<rparr>) g u n cid req cc
     = (fst (resolve_SIGHT d g u n cid req cc), (snd (resolve_SIGHT d g u n cid req cc))\<lparr>game := gs\<rparr>)"
  "resolve_SPECIFIC_TOKEN (d\<lparr>game := gs\<rparr>) g u n cid ct
     = (fst (resolve_SPECIFIC_TOKEN d g u n cid ct), (snd (resolve_SPECIFIC_TOKEN d g u n cid ct))\<lparr>game := gs\<rparr>)"
  by (simp_all add: resolve_MOVE_def resolve_PICK_TOKEN_def resolve_SIGHT_def
        resolve_SPECIFIC_TOKEN_def writes_commute_game reads_ignore_game Let_def
        split: option.splits list.splits sum.splits prod.splits)

lemma resolve_ELIMINATE_game:
  "resolve_ELIMINATE rnd pos (d\<lparr>game := gs\<rparr>) g u n cid
     = (case resolve_ELIMINATE rnd pos d g u n cid of (r, d1, p) \<Rightarrow> (r, d1\<lparr>game := gs\<rparr>, p))"
  by (simp add: resolve_ELIMINATE_def reads_ignore_game2 writes_commute_game Let_def split_beta
        split: option.splits)

lemma resolve_action_game:
  "resolve_action rnd (d\<lparr>game := gs\<rparr>) g u n cid req cl cc ct
     = (case resolve_action rnd d g u n cid req cl cc ct of (r, d1, p) \<Rightarrow> (r, d1\<lparr>game := gs\<rparr>, p))"
  by (simp add: resolve_action_def resolvers_game resolve_ELIMINATE_game split_beta
        split: ActionType.splits)

lemma next_turn_game:
  "next_turn rnd pos (d\<lparr>game := gs\<rparr>) g u ctx cid ar
     = (fst (next_turn rnd pos d g u ctx cid ar), (snd (next_turn rnd pos d g u ctx cid ar))\<lparr>game := gs\<rparr>)"
  by (simp add: next_turn_def writes_commute_game reads_ignore_game Let_def split_beta
        split: list.splits)

lemma set_stage_game:
  "set_stage (d\<lparr>game := gs\<rparr>) g st = (set_stage d g st)\<lparr>game := restage (Some st) g gs\<rparr>"
  by (simp add: set_stage_def restage_def)

lemma after_action_game:
  "\<exists>w. \<forall>gs. after_action rnd pos (d\<lparr>game := gs\<rparr>) g u ctx cid ar
     = (fst (after_action rnd pos d g u ctx cid ar),
        (snd (after_action rnd pos d g u ctx cid ar))\<lparr>game := restage w g gs\<rparr>)"
proof (cases "case minTokens d g of None \<Rightarrow> True | Some n \<Rightarrow> n < 1")
  case True
  then show ?thesis
    by (intro exI[of _ "Some (if isFinished d g then FINISHED else GUESSING)"])
       (simp add: after_action_def reads_ignore_game set_stage_game)
next
  case False
  then show ?thesis
    by (intro exI[of _ None])
       (simp add: after_action_def reads_ignore_game next_turn_game restage_def)
qed

lemma card_phase_game:
  "\<exists>w. \<forall>gs. card_phase rnd (d\<lparr>game := gs\<rparr>) g u req ctx cl
     = (fst (card_phase rnd d g u req ctx cl),
        (snd (card_phase rnd d g u req ctx cl))\<lparr>game := restage w g gs\<rparr>)"
proof (cases "select_slot d g u req ctx")
  case (Inl e)
  then show ?thesis
    by (intro exI[of _ None]) (simp add: card_phase_def reads_ignore_game2 restage_def)
next
  case (Inr x)
  obtain cid cc ct where x: "x = (cid, cc, ct)" by (cases x) auto
  obtain r d1 p where rs:
    "resolve_action rnd d g u (tc_nextLogId ctx) cid req cl cc ct = (r, d1, p)"
    by (cases "resolve_action rnd d g u (tc_nextLogId ctx) cid req cl cc ct") auto
  show ?thesis
  proof (cases r)
    case (Inl e)
    with Inr x rs show ?thesis
      by (intro exI[of _ None])
         (simp add: card_phase_def reads_ignore_game2 resolve_action_game restage_def)
  next
    case ar: (Inr ar)
    from after_action_game[of rnd p d1 g u ctx cid ar] obtain w where
      w: "\<And>gs. after_action rnd p (d1\<lparr>game := gs\<rparr>) g u ctx cid ar
            = (fst (after_action rnd p d1 g u ctx cid ar),
               (snd (after_action rnd p d1 g u ctx cid ar))\<lparr>game := restage w g gs\<rparr>)"
      by blast
    from Inr x rs ar show ?thesis
      by (intro exI[of _ w])
         (simp add: card_phase_def reads_ignore_game2 resolve_action_game w)
  qed
qed

lemma applyAction_game:
  "\<exists>w. \<forall>gs. map g_id gs = map g_id (game d) \<longrightarrow>
      applyAction rnd (d\<lparr>game := gs\<rparr>) g u req
        = (fst (applyAction rnd d g u req),
           (snd (applyAction rnd d g u req))\<lparr>game := restage w g gs\<rparr>)"
proof (cases "load_turn d g u")
  case (Inl e)
  then show ?thesis
    by (intro exI[of _ None]) (simp add: applyAction_def load_turn_ids restage_def)
next
  case ctx: (Inr ctx)
  show ?thesis
  proof (cases "characterLocation_of d g req")
    case (Inl e)
    with ctx show ?thesis
      by (intro exI[of _ None])
         (simp add: applyAction_def load_turn_ids reads_ignore_game2 restage_def)
  next
    case cl: (Inr cl)
    show ?thesis
    proof (cases "moveTo_bad req")
      case True
      with ctx cl show ?thesis
        by (intro exI[of _ None])
           (simp add: applyAction_def load_turn_ids reads_ignore_game2 restage_def)
    next
      case nb: False
      consider (m) "tc_turnCount ctx = 1 \<or> tc_turnCount ctx = 2"
        | (c) "tc_turnCount ctx = 3 \<or> tc_turnCount ctx = 4"
        | (o) "tc_turnCount ctx \<noteq> 1" "tc_turnCount ctx \<noteq> 2" "tc_turnCount ctx \<noteq> 3"
              "tc_turnCount ctx \<noteq> 4"
        by blast
      then show ?thesis
      proof cases
        case m
        have "\<forall>gs. map g_id gs = map g_id (game d) \<longrightarrow>
           applyAction rnd (d\<lparr>game := gs\<rparr>) g u req
             = (fst (applyAction rnd d g u req),
                (snd (applyAction rnd d g u req))\<lparr>game := restage None g gs\<rparr>)"
          using ctx cl nb m
          by (auto simp: applyAction_def load_turn_ids reads_ignore_game2 restage_def
                move_phase_game)
        then show ?thesis by blast
      next
        case c
        from card_phase_game[of rnd d g u req ctx cl] obtain w where
          w: "\<And>gs. card_phase rnd (d\<lparr>game := gs\<rparr>) g u req ctx cl
                = (fst (card_phase rnd d g u req ctx cl),
                   (snd (card_phase rnd d g u req ctx cl))\<lparr>game := restage w g gs\<rparr>)"
          by blast
        have "\<forall>gs. map g_id gs = map g_id (game d) \<longrightarrow>
           applyAction rnd (d\<lparr>game := gs\<rparr>) g u req
             = (fst (applyAction rnd d g u req),
                (snd (applyAction rnd d g u req))\<lparr>game := restage w g gs\<rparr>)"
          using ctx cl nb c w
          by (auto simp: applyAction_def load_turn_ids reads_ignore_game2)
        then show ?thesis by blast
      next
        case o
        with ctx cl nb show ?thesis
          by (intro exI[of _ None])
             (simp add: applyAction_def load_turn_ids reads_ignore_game2 restage_def)
      qed
    qed
  qed
qed

lemma forget_stage_split:
  assumes "forget_stage d1 = forget_stage d2"
  shows "d2 = d1\<lparr>game := game d2\<rparr>" "map g_id (game d2) = map g_id (game d1)"
    "map (\<lambda>r. r\<lparr>g_stage := PLAYING\<rparr>) (game d1) = map (\<lambda>r. r\<lparr>g_stage := PLAYING\<rparr>) (game d2)"
proof -
  from assms have eq: "app_user d1 = app_user d2" "game_user d1 = game_user d2"
      "game_token d1 = game_token d2" "game_token_location d1 = game_token_location d2"
      "game_user_token d1 = game_user_token d2" "game_character d1 = game_character d2"
      "game_card d1 = game_card d2" "game_user_card d1 = game_user_card d2"
      "game_user_guess d1 = game_user_guess d2" "game_log d1 = game_log d2"
      and gm: "map (\<lambda>r. r\<lparr>g_stage := PLAYING\<rparr>) (game d1) = map (\<lambda>r. r\<lparr>g_stage := PLAYING\<rparr>) (game d2)"
    by (cases d1; cases d2; simp add: forget_stage_def)+
  show "d2 = d1\<lparr>game := game d2\<rparr>" using eq by (cases d1; cases d2) simp
  have "map g_id (map (\<lambda>r. r\<lparr>g_stage := PLAYING\<rparr>) xs) = map g_id xs" for xs
    by (induction xs) auto
  then show "map g_id (game d2) = map g_id (game d1)" using gm by metis
  show "map (\<lambda>r. r\<lparr>g_stage := PLAYING\<rparr>) (game d1) = map (\<lambda>r. r\<lparr>g_stage := PLAYING\<rparr>) (game d2)"
    by (rule gm)
qed

lemma forget_restage:
  "map (\<lambda>r. r\<lparr>g_stage := PLAYING\<rparr>) (restage w g gs) = map (\<lambda>r. r\<lparr>g_stage := PLAYING\<rparr>) gs"
  by (cases w) (simp_all add: restage_def)

text \<open>
  C10.  The action handler never reads the stage.  Two states that differ only in stored
  stage values give, for the same request and the same random draws, the same result
  (the same acceptance, return value or error) and final states that again differ only
  in stored stage values; the two runs perform the same write to the game table (none, or
  the same stage written to the game's row).
\<close>

theorem stage_never_read:
  assumes "forget_stage d1 = forget_stage d2"
  shows "fst (applyAction rnd d1 g u req) = fst (applyAction rnd d2 g u req) \<and>
         forget_stage (snd (applyAction rnd d1 g u req))
           = forget_stage (snd (applyAction rnd d2 g u req)) \<and>
         (\<exists>w. game (snd (applyAction rnd d1 g u req)) = restage w g (game d1) \<and>
              game (snd (applyAction rnd d2 g u req)) = restage w g (game d2))"
proof -
  from applyAction_game[of d1 rnd g u req] obtain w where
    w: "\<And>gs. map g_id gs = map g_id (game d1) \<Longrightarrow>
      applyAction rnd (d1\<lparr>game := gs\<rparr>) g u req
        = (fst (applyAction rnd d1 g u req),
           (snd (applyAction rnd d1 g u req))\<lparr>game := restage w g gs\<rparr>)"
    by blast
  note sp = forget_stage_split[OF assms]
  have r2: "applyAction rnd d2 g u req
        = (fst (applyAction rnd d1 g u req),
           (snd (applyAction rnd d1 g u req))\<lparr>game := restage w g (game d2)\<rparr>)"
    using w[OF sp(2)] sp(1) by simp
  have "applyAction rnd (d1\<lparr>game := game d1\<rparr>) g u req
        = (fst (applyAction rnd d1 g u req),
           (snd (applyAction rnd d1 g u req))\<lparr>game := restage w g (game d1)\<rparr>)"
    by (rule w) simp
  then have g1: "game (snd (applyAction rnd d1 g u req)) = restage w g (game d1)"
    by (metis db.select_convs(2) db.update_convs(2) db.surjective snd_conv)
  have g2: "game (snd (applyAction rnd d2 g u req)) = restage w g (game d2)"
    by (simp add: r2)
  have f: "forget_stage (snd (applyAction rnd d1 g u req))
           = forget_stage (snd (applyAction rnd d2 g u req))"
    by (simp add: r2 forget_stage_def g1 forget_restage sp(3))
  from r2 g1 g2 f show ?thesis by auto
qed

theorem stage_never_read_witness:
  "forget_stage (ex_db PLAYING ex_log3) = forget_stage (ex_db FINISHED ex_log3) \<and>
   fst (applyAction (\<lambda>i. 0) (ex_db PLAYING ex_log3) ''g'' ''u1'' (ex_play SPECIFIC_TOKEN ''k2''))
     = Inr RNone \<and>
   fst (applyAction (\<lambda>i. 0) (ex_db FINISHED ex_log3) ''g'' ''u1'' (ex_play SPECIFIC_TOKEN ''k2''))
     = Inr RNone"
proof -
  have eq: "forget_stage (ex_db PLAYING ex_log3) = forget_stage (ex_db FINISHED ex_log3)"
    by (simp add: forget_stage_def ex_db_def)
  have acc: "fst (applyAction (\<lambda>i. 0) (ex_db PLAYING ex_log3) ''g'' ''u1''
                    (ex_play SPECIFIC_TOKEN ''k2'')) = Inr RNone"
    by code_simp
  from stage_never_read [OF eq, of "\<lambda>i. 0" "''g''" "''u1''" "ex_play SPECIFIC_TOKEN ''k2''"] acc
  have "fst (applyAction (\<lambda>i. 0) (ex_db FINISHED ex_log3) ''g'' ''u1''
               (ex_play SPECIFIC_TOKEN ''k2'')) = Inr RNone"
    by simp
  with eq acc show ?thesis by simp
qed

subsection \<open>Stage transitions\<close>

text \<open>
  A FINISHED game can go back to GUESSING.  In \<open>ex_scarce\<close> player \<open>u2\<close> records the
  guess that completes the deduction, which sets the stage to FINISHED, and then deletes
  it, which leaves the stage FINISHED.  Player \<open>u1\<close> then plays the SPECIFIC_TOKEN slot of
  card \<open>k2\<close>, which takes the last \<open>t2\<close> token: the scarcity re-check finds the deduction
  incomplete and writes GUESSING.
\<close>

theorem stage_reverts_counterexample:
  "stages ex_finished ''g'' = [FINISHED] \<and>
   stages ex_withdrawn ''g'' = [FINISHED] \<and>
   fst (applyAction ex_rnd ex_withdrawn ''g'' ''u1'' (ex_play SPECIFIC_TOKEN ''k2'')) = Inr RNone \<and>
   stages (snd (applyAction ex_rnd ex_withdrawn ''g'' ''u1'' (ex_play SPECIFIC_TOKEN ''k2''))) ''g''
     = [GUESSING]"
  by code_simp

lemma stages_restage:
  assumes "game d' = restage w g (game d)"
  shows "stages d' g' =
           (if g' = g then (case w of None \<Rightarrow> stages d g | Some st \<Rightarrow> map (\<lambda>_. st) (stages d g))
            else stages d g')"
proof -
  have h1: "map g_stage (filter (\<lambda>r. g_id r = g)
          (map (\<lambda>r. if g_id r = g then r\<lparr>g_stage := st\<rparr> else r) xs))
        = map (\<lambda>_. st) (filter (\<lambda>r. g_id r = g) xs)" for st xs
    by (induction xs) auto
  have h2: "g' \<noteq> g \<Longrightarrow> map g_stage (filter (\<lambda>r. g_id r = g')
          (map (\<lambda>r. if g_id r = g then r\<lparr>g_stage := st\<rparr> else r) xs))
        = map g_stage (filter (\<lambda>r. g_id r = g') xs)" for st xs
    by (induction xs) auto
  show ?thesis
  proof (cases w)
    case None
    with assms show ?thesis by (simp add: stages_def restage_def)
  next
    case (Some st)
    with assms show ?thesis by (simp add: stages_def restage_def h1 h2 comp_def)
  qed
qed

lemma finish_if_complete_game:
  "\<exists>w. game (finish_if_complete d g) = restage w g (game d) \<and> (w = None \<or> w = Some FINISHED)"
proof (cases "isFinished d g")
  case True
  then show ?thesis
    by (intro exI[of _ "Some FINISHED"]) (simp add: finish_if_complete_def set_stage_def restage_def)
next
  case False
  then show ?thesis
    by (intro exI[of _ None]) (simp add: finish_if_complete_def restage_def)
qed

lemma upsertGuess_game:
  "\<exists>w. game (snd (upsertGuess d g u q)) = restage w g (game d) \<and> (w = None \<or> w = Some FINISHED)"
proof (cases "\<exists>e. fst (upsertGuess d g u q) = Inl e")
  case True
  then have "snd (upsertGuess d g u q) = d"
    by (auto simp: upsertGuess_def split: option.splits if_splits)
  then show ?thesis by (intro exI[of _ None]) (simp add: restage_def)
next
  case False
  then obtain c t b where
    "snd (upsertGuess d g u q) = finish_if_complete (upsert_guess_row d g u c t b) g"
    by (auto simp: upsertGuess_def split: option.splits if_splits)
  moreover have "game (upsert_guess_row d g u c t b) = game d"
    by (simp add: upsert_guess_row_def)
  ultimately show ?thesis
    using finish_if_complete_game[of "upsert_guess_row d g u c t b" g] by simp
qed

lemma deleteGuess_game:
  "\<exists>w. game (snd (deleteGuess d g u q)) = restage w g (game d) \<and> (w = None \<or> w = Some FINISHED)"
proof (cases "\<exists>e. fst (deleteGuess d g u q) = Inl e")
  case True
  then have "snd (deleteGuess d g u q) = d"
    by (auto simp: deleteGuess_def split: option.splits if_splits)
  then show ?thesis by (intro exI[of _ None]) (simp add: restage_def)
next
  case False
  then obtain c t where
    "snd (deleteGuess d g u q) = finish_if_complete
        (d\<lparr>game_user_guess := filter (\<lambda>r. \<not> guess_key g u c t r) (game_user_guess d)\<rparr>) g"
    by (auto simp: deleteGuess_def split: option.splits if_splits)
  then show ?thesis
    using finish_if_complete_game[of
        "d\<lparr>game_user_guess := filter (\<lambda>r. \<not> guess_key g u c t r) (game_user_guess d)\<rparr>" g]
    by simp
qed

lemma move_phase_keeps_game: "game (snd (move_phase d g u req ctx cl)) = game d"
  by (simp add: move_phase_def set_location_def insert_log_def split: option.splits)

lemma resolve_action_keeps_game:
  assumes "resolve_action rnd d g u n cid req cl cc ct = (r, d1, p)"
  shows "game d1 = game d"
proof -
  have "resolve_action rnd (d\<lparr>game := game d\<rparr>) g u n cid req cl cc ct = (r, d1\<lparr>game := game d\<rparr>, p)"
    unfolding resolve_action_game assms by simp
  then have "d1 = d1\<lparr>game := game d\<rparr>" using assms by simp
  then have "game d1 = game (d1\<lparr>game := game d\<rparr>)" by simp
  then show ?thesis by simp
qed

lemma next_turn_keeps_game: "game (snd (next_turn rnd pos d g u ctx cid ar)) = game d"
  by (simp add: next_turn_def insert_log_def discard_def draw_def Let_def split_beta
        split: list.splits)

lemma after_action_stage_write:
  "\<exists>w. game (snd (after_action rnd pos d g u ctx cid ar)) = restage w g (game d) \<and>
        (w = None \<or>
         w = Some (if isFinished (snd (after_action rnd pos d g u ctx cid ar)) g
                   then FINISHED else GUESSING))"
proof (cases "case minTokens d g of None \<Rightarrow> True | Some n \<Rightarrow> n < 1")
  case True
  let ?st = "if isFinished d g then FINISHED else GUESSING"
  have s: "snd (after_action rnd pos d g u ctx cid ar) = set_stage d g ?st"
    using True by (simp add: after_action_def)
  have "isFinished (set_stage d g ?st) g = isFinished d g"
    unfolding set_stage_def by (rule reads_ignore_game)
  then show ?thesis
    unfolding s
    by (intro exI[of _ "Some ?st"]) (simp add: set_stage_def restage_def)
next
  case False
  then show ?thesis
    by (intro exI[of _ None]) (simp add: after_action_def next_turn_keeps_game restage_def)
qed

lemma applyAction_stage_write:
  "\<exists>w. game (snd (applyAction rnd d g u req)) = restage w g (game d) \<and>
        (w = None \<or>
         w = Some (if isFinished (snd (applyAction rnd d g u req)) g then FINISHED else GUESSING))"
proof -
  obtain res d' where run: "applyAction rnd d g u req = (res, d')"
    by (cases "applyAction rnd d g u req") auto
  have "\<exists>w. game d' = restage w g (game d) \<and>
        (w = None \<or> w = Some (if isFinished d' g then FINISHED else GUESSING))"
  proof -
    consider (unchanged) "d' = d"
      | (moved) ctx cl where "move_phase d g u req ctx cl = (res, d')"
      | (played) ctx cl cid cc ct r d1 pos where
          "resolve_action rnd d g u (tc_nextLogId ctx) cid req cl cc ct = (r, d1, pos)"
          "case r of Inl e \<Rightarrow> res = Inl e \<and> d' = d1
                   | Inr ar \<Rightarrow> after_action rnd pos d1 g u ctx cid ar = (res, d')"
      using applyAction_shape[OF run] by blast
    then show ?thesis
    proof cases
      case unchanged
      then show ?thesis by (intro exI[of _ None]) (simp add: restage_def)
    next
      case moved
      then have "game d' = game d" using move_phase_keeps_game[of d g u req ctx cl] by simp
      then show ?thesis by (intro exI[of _ None]) (simp add: restage_def)
    next
      case played
      have g1: "game d1 = game d" using played(1) by (rule resolve_action_keeps_game)
      show ?thesis
      proof (cases r)
        case (Inl e)
        with played(2) g1 show ?thesis by (intro exI[of _ None]) (simp add: restage_def)
      next
        case (Inr ar)
        with played(2) have "after_action rnd pos d1 g u ctx cid ar = (res, d')" by simp
        with after_action_stage_write[of rnd pos d1 g u ctx cid ar] g1
        show ?thesis by simp
      qed
    qed
  qed
  then show ?thesis by (simp add: run)
qed

text \<open>
  C4 (as the code has it).  From FINISHED, \<open>upsertGuess\<close> and \<open>deleteGuess\<close> never change
  the stage, and no operation ever sets it to PLAYING.  The scarcity re-check of
  \<open>applyAction\<close> leaves a FINISHED game FINISHED or sets it to GUESSING, the latter only
  for the game acted on and only when the deduction-completion check fails on the
  resulting state.
\<close>

theorem stage_from_finished:
  assumes fin: "list_all (\<lambda>st. st = FINISHED) (stages d g')"
  shows "list_all (\<lambda>st. st = FINISHED) (stages (snd (upsertGuess d g u q)) g') \<and>
         list_all (\<lambda>st. st = FINISHED) (stages (snd (deleteGuess d g u' q')) g') \<and>
         list_all (\<lambda>st. st = FINISHED \<or>
                        (st = GUESSING \<and> g' = g \<and>
                         \<not> isFinished (snd (applyAction rnd d g u'' req)) g))
                  (stages (snd (applyAction rnd d g u'' req)) g')"
proof (intro conjI)
  from upsertGuess_game[of d g u q] obtain w where
    "game (snd (upsertGuess d g u q)) = restage w g (game d)" "w = None \<or> w = Some FINISHED"
    by blast
  then show "list_all (\<lambda>st. st = FINISHED) (stages (snd (upsertGuess d g u q)) g')"
    using fin by (auto simp: stages_restage list_all_iff)
next
  from deleteGuess_game[of d g u' q'] obtain w where
    "game (snd (deleteGuess d g u' q')) = restage w g (game d)" "w = None \<or> w = Some FINISHED"
    by blast
  then show "list_all (\<lambda>st. st = FINISHED) (stages (snd (deleteGuess d g u' q')) g')"
    using fin by (auto simp: stages_restage list_all_iff)
next
  let ?d' = "snd (applyAction rnd d g u'' req)"
  from applyAction_stage_write[of rnd d g u'' req] obtain w where
    "game ?d' = restage w g (game d)"
    "w = None \<or> w = Some (if isFinished ?d' g then FINISHED else GUESSING)"
    by blast
  then show "list_all (\<lambda>st. st = FINISHED \<or> (st = GUESSING \<and> g' = g \<and> \<not> isFinished ?d' g))
                  (stages ?d' g')"
    using fin by (auto simp: stages_restage list_all_iff split: if_splits)
qed

theorem stage_from_finished_witness:
  "list_all (\<lambda>st. st = FINISHED) (stages ex_finished ''g'') \<and>
   stages ex_finished ''g'' \<noteq> [] \<and>
   list_all (\<lambda>st. st = FINISHED) (stages ex_withdrawn ''g'') \<and>
   list_all (\<lambda>st. st = FINISHED)
     (stages (snd (upsertGuess ex_finished ''g'' ''u2'' (ex_guess_request False))) ''g'')"
proof -
  have f: "list_all (\<lambda>st. st = FINISHED) (stages ex_finished ''g'')" by code_simp
  have n: "stages ex_finished ''g'' \<noteq> []" by code_simp
  from stage_from_finished [OF f, where g = "''g''" and u = "''u2''" and q = "ex_guess_request False"
         and u' = "''u2''" and q' = "ex_guess_request True"]
  show ?thesis using f n by (simp add: ex_withdrawn_def)
qed

subsection \<open>The initial state of a two-player game\<close>

lemma shuffle_loop_length: "length (fst (shuffle_loop rnd n pos i arr)) = length arr"
proof (induction rnd n pos i arr rule: shuffle_loop.induct)
  case (1 rnd n pos i arr)
  show ?case
  proof (cases "i < n")
    case True
    with 1 show ?thesis by (subst shuffle_loop.simps) (simp add: Let_def)
  next
    case False
    then show ?thesis by (subst shuffle_loop.simps) simp
  qed
qed

lemma shuffle_length: "length (fst (shuffle rnd pos arr)) = length arr"
  by (simp add: shuffle_def shuffle_loop_length)

lemma rollDice_length: "length (fst (snd (rollDice rnd pos cs))) = length cs"
  using shuffle_length[of rnd pos cs]
  by (simp add: rollDice_def split_beta Let_def)

lemma sight_cards_length:
  "length (concat (map (\<lambda>(i, c). sight_cards i c) (enumerate k cs))) = 2 * length cs"
  by (induction cs arbitrary: k) (simp_all add: sight_cards_def)

lemma deck_ids: "map (\<lambda>i. gen (i + 1)) [0..<28] =
   map (\<lambda>i. gen (i + 1)) [0..<24] @ [gen 25, gen 26, gen 27, gen 28]"
proof -
  have "[0..<28] = [0..<24] @ [24, 25, 26, 27]" by code_simp
  then show ?thesis by simp
qed

lemma deal_cards_two:
  "deal_cards 2 g p (ids @ [x, y]) d =
     (None, ids, give_card g p x (clear_deck_order x (give_card g p y (clear_deck_order y d))))"
proof -
  have "deal_cards (Suc (Suc 0)) g p (ids @ [x, y]) d =
     (None, ids, give_card g p x (clear_deck_order x (give_card g p y (clear_deck_order y d))))"
    by (simp add: Let_def butlast_append)
  then show ?thesis by (simp add: numeral_2_eq_2)
qed

lemma deal_two:
  assumes "nth_opt chars 0 = Some c0" "nth_opt chars 1 = Some c1"
  shows "deal g chars 0 [a, b] (ids @ [w, x, y, z]) d =
     (None,
      give_card g b w (clear_deck_order w (give_card g b x (clear_deck_order x
        (add_game_user g b c1 1
          (give_card g a y (clear_deck_order y (give_card g a z (clear_deck_order z
            (add_game_user g a c0 0 d))))))))))"
proof -
  have s: "ids @ [w, x, y, z] = (ids @ [w, x]) @ [y, z]" by simp
  show ?thesis
    unfolding s
    using assms deal_cards_two[of g a "ids @ [w, x]" y z] deal_cards_two[of g b ids w x]
    by simp
qed

lemma setup_game_two:
  "\<exists>die1 die2 chars3 cards3 c0 c1.
     length cards3 = 28 \<and>
     setup_game rnd gen d g [a, b] =
       (None, (give_card g b (gen 25)
         (clear_deck_order (gen 25)
         (give_card g b (gen 26)
         (clear_deck_order (gen 26)
         (add_game_user g b c1 1
         (give_card g a (gen 27)
         (clear_deck_order (gen 27)
         (give_card g a (gen 28)
         (clear_deck_order (gen 28)
         (add_game_user g a c0 0
         (insert_cards gen g cards3
         (insert_characters g chars3
         (insert_log (fold (insert_token g 4) (zip tokens tokenLocations) d)
            ((new_log g 0 a ROLL)\<lparr>lg_die1 := die1, lg_die2 := die2\<rparr>)))))))))))))))"
proof -
  define r where "r = rollDice rnd 0 characters0"
  define chars1 where "chars1 = fst (snd r)"
  define s2 where "s2 = shuffle rnd (snd (snd r)) chars1"
  define chars2 where "chars2 = fst s2"
  define cards2 where "cards2 = (generic_cards @ concat (map token_cards tokens)) @
       concat (map (\<lambda>(i, c). sight_cards i c) (enumerate 0 chars2))"
  define s3 where "s3 = shuffle rnd (snd s2) chars2"
  define chars3 where "chars3 = fst s3"
  define s4 where "s4 = shuffle rnd (snd s3) cards2"
  define cards3 where "cards3 = fst s4"
  define s5 where "s5 = shuffle rnd (snd s4) chars3"
  define chars4 where "chars4 = fst s5"
  have l1: "length chars1 = 10"
    unfolding chars1_def r_def rollDice_length by (simp add: characters0_def)
  have l2: "length chars2 = 10" unfolding chars2_def s2_def shuffle_length by (rule l1)
  have l3: "length chars3 = 10" unfolding chars3_def s3_def shuffle_length by (rule l2)
  have l4: "length chars4 = 10" unfolding chars4_def s5_def shuffle_length by (rule l3)
  have lc2: "length cards2 = 28"
    unfolding cards2_def
    by (simp add: sight_cards_length l2 generic_cards_def tokens_def token_cards_def)
  have lc3: "length cards3 = 28" unfolding cards3_def s4_def shuffle_length by (rule lc2)
  have n0: "nth_opt chars4 0 = Some (chars4 ! 0)" and n1: "nth_opt chars4 1 = Some (chars4 ! 1)"
    using l4 by (simp_all add: nth_opt_def)
  have "setup_game rnd gen d g [a, b] =
      deal g chars4 0 [a, b] (map (\<lambda>i. gen (i + 1)) [0..<length cards3])
        (insert_cards gen g cards3
           (insert_characters g chars3
              (insert_log (fold (insert_token g 4) (zip tokens tokenLocations) d)
                 ((new_log g 0 a ROLL)\<lparr>lg_die1 := fst (fst r), lg_die2 := snd (fst r)\<rparr>))))"
    unfolding setup_game_def Let_def split_beta
      chars4_def s5_def chars3_def s3_def cards3_def s4_def cards2_def chars2_def s2_def chars1_def r_def
    by simp
  also have "\<dots> = (None, (give_card g b (gen 25)
         (clear_deck_order (gen 25)
         (give_card g b (gen 26)
         (clear_deck_order (gen 26)
         (add_game_user g b (chars4 ! 1) 1
         (give_card g a (gen 27)
         (clear_deck_order (gen 27)
         (give_card g a (gen 28)
         (clear_deck_order (gen 28)
         (add_game_user g a (chars4 ! 0) 0
         (insert_cards gen g cards3
         (insert_characters g chars3
         (insert_log (fold (insert_token g 4) (zip tokens tokenLocations) d)
            ((new_log g 0 a ROLL)\<lparr>lg_die1 := fst (fst r), lg_die2 := snd (fst r)\<rparr>)))))))))))))))"
    unfolding lc3 deck_ids by (rule deal_two[OF n0 n1])
  finally show ?thesis using lc3 by blast
qed

lemma deck_orders_steps:
  "deck_orders (clear_deck_order c' d) c =
     (if c = c' then map (\<lambda>_. None) (deck_orders d c) else deck_orders d c)"
  "deck_orders (give_card g p x d) c = deck_orders d c"
  "deck_orders (add_game_user g p ch i d) c = deck_orders d c"
proof -
  have h1: "map cd_deck_order (filter (\<lambda>r. cd_id r = c')
          (map (\<lambda>r. if cd_id r = c' then r\<lparr>cd_deck_order := None\<rparr> else r) xs))
        = map (\<lambda>_. None) (filter (\<lambda>r. cd_id r = c') xs)" for xs
    by (induction xs) auto
  have h2: "c \<noteq> c' \<Longrightarrow> map cd_deck_order (filter (\<lambda>r. cd_id r = c)
          (map (\<lambda>r. if cd_id r = c' then r\<lparr>cd_deck_order := None\<rparr> else r) xs))
        = map cd_deck_order (filter (\<lambda>r. cd_id r = c) xs)" for xs
    by (induction xs) auto
  show "deck_orders (clear_deck_order c' d) c =
     (if c = c' then map (\<lambda>_. None) (deck_orders d c) else deck_orders d c)"
    by (simp add: deck_orders_def clear_deck_order_def comp_def h1 h2)
  show "deck_orders (give_card g p x d) c = deck_orders d c"
    by (simp add: deck_orders_def give_card_def)
  show "deck_orders (add_game_user g p ch i d) c = deck_orders d c"
    by (simp add: deck_orders_def add_game_user_def)
qed

lemma inserted_card_row:
  assumes "i < length cards"
  shows "deck_orders (insert_cards gen g cards d) (gen (i + 1)) \<noteq> []"
proof -
  have "(i, cards ! i) \<in> set (enumerate 0 cards)"
    using assms by (simp add: in_set_enumerate_eq)
  then have "\<exists>r\<in>set (game_card (insert_cards gen g cards d)). cd_id r = gen (i + 1)"
    by (force simp: insert_cards_def)
  then show ?thesis
    by (auto simp: deck_orders_def filter_empty_conv)
qed

lemma fresh_filters:
  assumes "fresh_game d g"
  shows "filter (\<lambda>l. lg_game l = g) (game_log d) = []"
    "filter (\<lambda>r. guc_game r = g \<and> guc_app_user r = p) (game_user_card d) = []"
    "filter (\<lambda>r. gt_game r = g \<and> gt_token r = t) (game_token d) = []"
    "filter (\<lambda>r. gt_game r = g) (game_token d) = []"
  using assms by (auto simp: fresh_game_def list_all_iff filter_empty_conv)

text \<open>
  C9.  \<open>createGame\<close> with a name and two distinct, known players succeeds on a fresh game
  id, and in the state it leaves: the log of the game holds exactly one entry, a ROLL with
  id 0 attributed to the first supplied player; each player holds exactly two cards (the
  last four of the shuffled deck, in pop order), every one of them a card row whose
  \<open>deck_order\<close> is cleared; the game has the three token types, each with stock
  \<open>playerCount + 2 = 4\<close>, so the total stock is 12.
\<close>

theorem createGame_two_players:
  assumes nm: "nm \<noteq> []" and known: "unknown_user d [a, b] = None" and ab: "a \<noteq> b"
    and fresh: "fresh_game d (gen 0)"
  shows "\<exists>die1 die2 d'.
      createGame rnd gen d authUser (Some nm) (Some [a, b]) = (Inr (gen 0), d') \<and>
      game_log_of d' (gen 0) = [(new_log (gen 0) 0 a ROLL)\<lparr>lg_die1 := die1, lg_die2 := die2\<rparr>] \<and>
      hand d' (gen 0) a = [gen 28, gen 27] \<and>
      hand d' (gen 0) b = [gen 26, gen 25] \<and>
      (\<forall>c\<in>set [gen 25, gen 26, gen 27, gen 28].
          deck_orders d' c \<noteq> [] \<and> list_all (\<lambda>k. k = None) (deck_orders d' c)) \<and>
      map gt_token (filter (\<lambda>r. gt_game r = gen 0) (game_token d')) = tokens \<and>
      map (stock d' (gen 0)) tokens = [4, 4, 4] \<and>
      total_stock d' (gen 0) = 12"
proof -
  let ?g = "gen 0"
  define d1 where "d1 = d\<lparr>game := game d @
      [\<lparr>g_id = ?g, g_owner = authUser, g_name = nm, g_stage = PLAYING\<rparr>]\<rparr>"
  from setup_game_two[of rnd gen d1 ?g a b]
  obtain die1 die2 chars3 cards3 c0 c1 where len: "length cards3 = 28"
    and run0: "setup_game rnd gen d1 ?g [a, b] = (None, (give_card ?g b (gen 25)
         (clear_deck_order (gen 25)
         (give_card ?g b (gen 26)
         (clear_deck_order (gen 26)
         (add_game_user ?g b c1 1
         (give_card ?g a (gen 27)
         (clear_deck_order (gen 27)
         (give_card ?g a (gen 28)
         (clear_deck_order (gen 28)
         (add_game_user ?g a c0 0
         (insert_cards gen ?g cards3
         (insert_characters ?g chars3
         (insert_log (fold (insert_token ?g 4) (zip tokens tokenLocations) d1)
            ((new_log ?g 0 a ROLL)\<lparr>lg_die1 := die1, lg_die2 := die2\<rparr>)))))))))))))))"
    by blast
  define D where "D = (give_card ?g b (gen 25)
         (clear_deck_order (gen 25)
         (give_card ?g b (gen 26)
         (clear_deck_order (gen 26)
         (add_game_user ?g b c1 1
         (give_card ?g a (gen 27)
         (clear_deck_order (gen 27)
         (give_card ?g a (gen 28)
         (clear_deck_order (gen 28)
         (add_game_user ?g a c0 0
         (insert_cards gen ?g cards3
         (insert_characters ?g chars3
         (insert_log (fold (insert_token ?g 4) (zip tokens tokenLocations) d1)
            ((new_log ?g 0 a ROLL)\<lparr>lg_die1 := die1, lg_die2 := die2\<rparr>))))))))))))))"
  have run: "setup_game rnd gen d1 ?g [a, b] = (None, D)"
    unfolding D_def by (rule run0)
  note D = D_def
  have cg: "createGame rnd gen d authUser (Some nm) (Some [a, b]) = (Inr ?g, D)"
    using nm known run by (simp add: createGame_def truthy_def Let_def d1_def)
  have tabs: "game_log d1 = game_log d" "game_user_card d1 = game_user_card d"
    "game_token d1 = game_token d"
    by (simp_all add: d1_def)
  have lg: "game_log D = game_log d @ [(new_log ?g 0 a ROLL)\<lparr>lg_die1 := die1, lg_die2 := die2\<rparr>]"
    by (simp add: D give_card_def clear_deck_order_def add_game_user_def insert_cards_def
          insert_characters_def insert_log_def insert_token_def tokens_def tokenLocations_def tabs)
  have uc: "game_user_card D = game_user_card d @
      [\<lparr>guc_game = ?g, guc_card = gen 28, guc_app_user = a\<rparr>,
       \<lparr>guc_game = ?g, guc_card = gen 27, guc_app_user = a\<rparr>,
       \<lparr>guc_game = ?g, guc_card = gen 26, guc_app_user = b\<rparr>,
       \<lparr>guc_game = ?g, guc_card = gen 25, guc_app_user = b\<rparr>]"
    by (simp add: D give_card_def clear_deck_order_def add_game_user_def insert_cards_def
          insert_characters_def insert_log_def insert_token_def tokens_def tokenLocations_def tabs)
  have tk: "game_token D = game_token d @
      [\<lparr>gt_game = ?g, gt_token = tokens ! 0, gt_count = 4\<rparr>,
       \<lparr>gt_game = ?g, gt_token = tokens ! 1, gt_count = 4\<rparr>,
       \<lparr>gt_game = ?g, gt_token = tokens ! 2, gt_count = 4\<rparr>]"
    by (simp add: D give_card_def clear_deck_order_def add_game_user_def insert_cards_def
          insert_characters_def insert_log_def insert_token_def tokens_def tokenLocations_def tabs)
  have c1: "game_log_of D ?g = [(new_log ?g 0 a ROLL)\<lparr>lg_die1 := die1, lg_die2 := die2\<rparr>]"
    by (simp add: game_log_of_def lg fresh_filters[OF fresh] new_log_def)
  have c2: "hand D ?g a = [gen 28, gen 27]" "hand D ?g b = [gen 26, gen 25]"
    using ab by (auto simp: hand_def uc fresh_filters[OF fresh])
  have rows: "deck_orders (insert_cards gen ?g cards3 d0) (gen (i + 1)) \<noteq> []" if "i < 28" for i d0
    using that len by (intro inserted_card_row) simp
  have r25: "deck_orders (insert_cards gen ?g cards3 d0) (gen 25) \<noteq> []" for d0
    using rows[of 24 d0] by simp
  have r26: "deck_orders (insert_cards gen ?g cards3 d0) (gen 26) \<noteq> []" for d0
    using rows[of 25 d0] by simp
  have r27: "deck_orders (insert_cards gen ?g cards3 d0) (gen 27) \<noteq> []" for d0
    using rows[of 26 d0] by simp
  have r28: "deck_orders (insert_cards gen ?g cards3 d0) (gen 28) \<noteq> []" for d0
    using rows[of 27 d0] by simp
  have c3: "\<forall>c\<in>set [gen 25, gen 26, gen 27, gen 28].
          deck_orders D c \<noteq> [] \<and> list_all (\<lambda>k. k = None) (deck_orders D c)"
    by (simp add: D deck_orders_steps r25 r26 r27 r28 list_all_iff)
  have c4: "map gt_token (filter (\<lambda>r. gt_game r = ?g) (game_token D)) = tokens"
    by (simp add: tk fresh_filters[OF fresh] tokens_def)
  have c5: "map (stock D ?g) tokens = [4, 4, 4]"
    by (simp add: stock_def tk fresh_filters[OF fresh] tokens_def)
  have c6: "total_stock D ?g = 12"
    by (simp add: total_stock_def tk fresh_filters[OF fresh])
  show ?thesis
    by (rule exI[of _ die1], rule exI[of _ die2], rule exI[of _ D])
       (intro conjI cg c1 c2 c3 c4 c5 c6)
qed

theorem createGame_two_players_witness:
  "''new'' \<noteq> [] \<and> ''u1'' \<noteq> ''u2'' \<and>
   unknown_user (ex_db PLAYING ex_log4) [''u1'', ''u2''] = None \<and>
   fresh_game (ex_db PLAYING ex_log4) (ex_gen 0) \<and>
   fst (createGame ex_rnd ex_gen (ex_db PLAYING ex_log4) ''u1'' (Some ''new'') (Some [''u1'', ''u2'']))
     = Inr (ex_gen 0) \<and>
   length (game_log_of
     (snd (createGame ex_rnd ex_gen (ex_db PLAYING ex_log4) ''u1'' (Some ''new'') (Some [''u1'', ''u2''])))
     (ex_gen 0)) = 1 \<and>
   hand (snd (createGame ex_rnd ex_gen (ex_db PLAYING ex_log4) ''u1'' (Some ''new'') (Some [''u1'', ''u2''])))
     (ex_gen 0) ''u1'' = [ex_gen 28, ex_gen 27] \<and>
   total_stock
     (snd (createGame ex_rnd ex_gen (ex_db PLAYING ex_log4) ''u1'' (Some ''new'') (Some [''u1'', ''u2''])))
     (ex_gen 0) = 12"
proof -
  have n: "''new'' \<noteq> []" by simp
  have ab: "''u1'' \<noteq> ''u2''" by simp
  have k: "unknown_user (ex_db PLAYING ex_log4) [''u1'', ''u2''] = None" by code_simp
  have f: "fresh_game (ex_db PLAYING ex_log4) (ex_gen 0)" by code_simp
  from createGame_two_players [where gen = ex_gen and rnd = ex_rnd and authUser = "''u1''", OF n k ab f]
  obtain die1 die2 d' where
    "createGame ex_rnd ex_gen (ex_db PLAYING ex_log4) ''u1'' (Some ''new'') (Some [''u1'', ''u2''])
       = (Inr (ex_gen 0), d')"
    "game_log_of d' (ex_gen 0) = [(new_log (ex_gen 0) 0 ''u1'' ROLL)\<lparr>lg_die1 := die1, lg_die2 := die2\<rparr>]"
    "hand d' (ex_gen 0) ''u1'' = [ex_gen 28, ex_gen 27]"
    "total_stock d' (ex_gen 0) = 12"
    by blast
  with n ab k f show ?thesis by simp
qed

subsection \<open>Failures and partial effects\<close>

text \<open>
  The handlers open no transaction, so a failure raised after a write keeps what was
  written.  \<open>createGame\<close> with a single player inserts the game row and then fails on the
  player count.  At phase 4 with an empty draw pile, ELIMINATE is resolved and logged, the
  next ROLL is logged and the card is discarded before the draw fails.
\<close>

theorem partial_effects_counterexample:
  "fst (createGame ex_rnd ex_gen (ex_db PLAYING ex_log4) ''u1'' (Some ''new'') (Some [''u1'']))
     = Inl (ErrorResponse 400 ''Player count must be 2-6: 1'') \<and>
   game (snd (createGame ex_rnd ex_gen (ex_db PLAYING ex_log4) ''u1'' (Some ''new'') (Some [''u1''])))
     = game (ex_db PLAYING ex_log4) @
         [\<lparr>g_id = ex_gen 0, g_owner = ''u1'', g_name = ''new'', g_stage = PLAYING\<rparr>] \<and>
   fst (applyAction ex_rnd ex_empty_deck ''g'' ''u1'' (ex_play ELIMINATE ''k2''))
     = Inl (Thrown ''Ran out of cards!'') \<and>
   length (game_log (snd (applyAction ex_rnd ex_empty_deck ''g'' ''u1'' (ex_play ELIMINATE ''k2''))))
     = length (game_log ex_empty_deck) + 2 \<and>
   hand ex_empty_deck ''g'' ''u1'' = [''k1'', ''k2''] \<and>
   hand (snd (applyAction ex_rnd ex_empty_deck ''g'' ''u1'' (ex_play ELIMINATE ''k2''))) ''g'' ''u1''
     = [''k1''] \<and>
   is_eliminated (snd (applyAction ex_rnd ex_empty_deck ''g'' ''u1'' (ex_play ELIMINATE ''k2'')))
     ''g'' ''c3''"
  by code_simp

lemma move_phase_error: "move_phase d g u req ctx cl = (Inl e, d') \<Longrightarrow> d' = d"
  by (auto simp: move_phase_def split: if_splits option.splits)

lemma resolve_ELIMINATE_error:
  "resolve_ELIMINATE rnd pos d g u n cid = (Inl e, d1, p) \<Longrightarrow> e = DbError"
  by (auto simp: resolve_ELIMINATE_def Let_def split_beta split: option.splits if_splits)

lemma resolve_action_error:
  assumes "resolve_action rnd d g u n cid req cl cc ct = (Inl e, d1, p)" "e \<noteq> DbError"
  shows "d1 = d"
proof (cases "rq_type req")
  case ELIMINATE
  with assms resolve_ELIMINATE_error show ?thesis
    by (auto simp: resolve_action_def)
next
  case MOVE
  with assms show ?thesis
    by (auto simp: resolve_action_def resolve_MOVE_def split: option.splits if_splits)
next
  case PICK_TOKEN
  with assms show ?thesis
    by (auto simp: resolve_action_def resolve_PICK_TOKEN_def split: option.splits if_splits)
next
  case SIGHT
  with assms show ?thesis
    by (auto simp: resolve_action_def resolve_SIGHT_def Let_def split_beta
           split: option.splits if_splits list.splits sum.splits)
next
  case SPECIFIC_TOKEN
  with assms show ?thesis
    by (auto simp: resolve_action_def resolve_SPECIFIC_TOKEN_def split: option.splits if_splits)
next
  case ROLL
  with assms show ?thesis by (auto simp: resolve_action_def)
qed

lemma after_action_error:
  assumes "after_action rnd pos d g u ctx cid ar = (Inl e, d')"
  shows "e = TypeError \<or> e = Thrown ''Ran out of cards!''"
  using assms
  by (auto simp: after_action_def next_turn_def Let_def split_beta split: if_splits list.splits)

lemma resolve_action_keeps_game_user:
  assumes "resolve_action rnd d g u n cid req cl cc ct = (r, d1, p)"
  shows "game_user d1 = game_user d"
proof (cases "rq_type req")
  case ELIMINATE
  with assms show ?thesis
    by (auto simp: resolve_action_def resolve_ELIMINATE_def Let_def split_beta set_eliminated_def
          insert_log_def reset_eliminated_def split: option.splits if_splits)
next
  case MOVE
  with assms show ?thesis
    by (auto simp: resolve_action_def resolve_MOVE_def set_location_def insert_log_def
          split: option.splits if_splits)
next
  case PICK_TOKEN
  with assms show ?thesis
    by (auto simp: resolve_action_def resolve_PICK_TOKEN_def decrement_stock_def
          increment_user_token_def insert_log_def split: option.splits if_splits)
next
  case SIGHT
  with assms show ?thesis
    by (auto simp: resolve_action_def resolve_SIGHT_def Let_def split_beta insert_log_def
           split: option.splits if_splits list.splits sum.splits)
next
  case SPECIFIC_TOKEN
  with assms show ?thesis
    by (auto simp: resolve_action_def resolve_SPECIFIC_TOKEN_def decrement_stock_def
          increment_user_token_def insert_log_def split: option.splits if_splits)
next
  case ROLL
  with assms show ?thesis by (auto simp: resolve_action_def)
qed

lemma next_users_nonempty:
  assumes ctx: "load_turn d g u = Inr ctx" and gu: "game_user d1 = game_user d"
  shows "next_users d1 g k \<noteq> []"
proof -
  from ctx have ok: "game_order_ok 0 (users_of d g)"
    and f: "find (\<lambda>user. gu_app_user user = u) (users_of d g) \<noteq> None"
    by (auto simp: load_turn_def Let_def split: option.splits if_splits)
  from f obtain x xs where us: "users_of d g = x # xs"
    by (cases "users_of d g") auto
  with ok have o: "gu_game_order x = 0" by simp
  have "x \<in> set (users_of d g)" using us by simp
  then have "x \<in> set (game_user d)" "gu_game x = g"
    by (auto simp: users_of_def)
  with o gu have "\<exists>x\<in>set (game_user d1). gu_game x = g \<and>
                 (gu_game_order x = k + 1 \<or> gu_game_order x = 0)"
    by auto
  then have ne: "filter (\<lambda>u. gu_game u = g \<and>
                 (gu_game_order u = k + 1 \<or> gu_game_order u = 0)) (game_user d1) \<noteq> []"
    by (simp add: filter_empty_conv)
  have "length (next_users d1 g k) = length (filter (\<lambda>u. gu_game u = g \<and>
                 (gu_game_order u = k + 1 \<or> gu_game_order u = 0)) (game_user d1))"
    by (simp add: next_users_def)
  with ne show ?thesis by auto
qed

lemma after_action_deck_error:
  assumes "after_action rnd pos d g u ctx cid ar = (Inl e, d')"
    and "next_users d g (tc_curPlayerOrder ctx) \<noteq> []"
  shows "e = Thrown ''Ran out of cards!''"
  using assms
  by (auto simp: after_action_def next_turn_def Let_def split_beta split: if_splits list.splits)

text \<open>
  C3 (as the code has it).  A failure raised before the first write has no effect:
  \<open>createGame\<close> failing on a missing name, missing \<open>userIds\<close> or an unknown user, and
  \<open>applyAction\<close> failing with any error other than deck exhaustion (and the database
  refusing the log row of an ELIMINATE that found no character), leave the state exactly
  as it was before the call.
\<close>

theorem failure_before_first_write:
  "(\<not> truthy name \<or> userIds = None \<or> userIds = Some [] \<or>
      (\<exists>us. userIds = Some us \<and> unknown_user d us \<noteq> None) \<longrightarrow>
      (\<exists>e. createGame rnd gen d authUser name userIds = (Inl e, d))) \<and>
   (applyAction rnd d g u req = (Inl e, d') \<and> e \<noteq> Thrown ''Ran out of cards!'' \<and>
      e \<noteq> DbError \<longrightarrow> d' = d)"
proof (intro conjI impI)
  assume "\<not> truthy name \<or> userIds = None \<or> userIds = Some [] \<or>
      (\<exists>us. userIds = Some us \<and> unknown_user d us \<noteq> None)"
  then show "\<exists>e. createGame rnd gen d authUser name userIds = (Inl e, d)"
    by (auto simp: createGame_def split: option.splits)
next
  assume h: "applyAction rnd d g u req = (Inl e, d') \<and> e \<noteq> Thrown ''Ran out of cards!'' \<and>
      e \<noteq> DbError"
  then have run: "applyAction rnd d g u req = (Inl e, d')" by simp
  consider (unchanged) "d' = d"
    | (moved) ctx cl where "move_phase d g u req ctx cl = (Inl e, d')"
    | (played) ctx cl cid cc ct r d1 pos where
        "load_turn d g u = Inr ctx"
        "resolve_action rnd d g u (tc_nextLogId ctx) cid req cl cc ct = (r, d1, pos)"
        "case r of Inl e' \<Rightarrow> Inl e = (Inl e' :: error + action_result) \<and> d' = d1
                 | Inr ar \<Rightarrow> after_action rnd pos d1 g u ctx cid ar = (Inl e, d')"
    using applyAction_shape[OF run] by blast
  then show "d' = d"
  proof cases
    case unchanged
    then show ?thesis .
  next
    case moved
    then show ?thesis by (rule move_phase_error)
  next
    case played
    show ?thesis
    proof (cases r)
      case (Inl e')
      with played(3) have "e' = e" "d' = d1" by simp_all
      with played(2) Inl h show ?thesis using resolve_action_error by blast
    next
      case (Inr ar)
      with played(3) have a: "after_action rnd pos d1 g u ctx cid ar = (Inl e, d')" by simp
      have "next_users d1 g (tc_curPlayerOrder ctx) \<noteq> []"
        using played(1) resolve_action_keeps_game_user[OF played(2)] by (rule next_users_nonempty)
      with a have "e = Thrown ''Ran out of cards!''" by (rule after_action_deck_error)
      with h show ?thesis by simp
    qed
  qed
qed

theorem failure_before_first_write_witness:
  "\<not> truthy None \<and>
   createGame ex_rnd ex_gen (ex_db PLAYING ex_log4) ''u1'' None (Some [''u1'', ''u2''])
     = (Inl (ErrorResponse 400 ''`name` is required''), ex_db PLAYING ex_log4) \<and>
   fst (applyAction ex_rnd (ex_db PLAYING ex_log4) ''g'' ''u1'' (ex_play MOVE ''k1''))
     = Inl (ErrorResponse 400 ''Card did not match previous action'') \<and>
   snd (applyAction ex_rnd (ex_db PLAYING ex_log4) ''g'' ''u1'' (ex_play MOVE ''k1''))
     = ex_db PLAYING ex_log4"
proof -
  let ?d = "ex_db PLAYING ex_log4"
  let ?run = "applyAction ex_rnd ?d ''g'' ''u1'' (ex_play MOVE ''k1'')"
  have t: "\<not> truthy None" by (simp add: truthy_def)
  note th = failure_before_first_write [where d = ?d and name = None and rnd = ex_rnd
      and gen = ex_gen and authUser = "''u1''" and userIds = "Some [''u1'', ''u2'']"
      and g = "''g''" and u = "''u1''" and req = "ex_play MOVE ''k1''"
      and e = "ErrorResponse 400 ''Card did not match previous action''" and d' = "snd ?run"]
  from th t obtain e where
    c: "createGame ex_rnd ex_gen ?d ''u1'' None (Some [''u1'', ''u2'']) = (Inl e, ?d)"
    by blast
  have ce: "fst (createGame ex_rnd ex_gen ?d ''u1'' None (Some [''u1'', ''u2'']))
              = Inl (ErrorResponse 400 ''`name` is required'')"
    by code_simp
  have c': "createGame ex_rnd ex_gen ?d ''u1'' None (Some [''u1'', ''u2''])
     = (Inl (ErrorResponse 400 ''`name` is required''), ?d)"
    using c ce by simp
  have f: "fst ?run = Inl (ErrorResponse 400 ''Card did not match previous action'')"
    by code_simp
  then have "?run = (Inl (ErrorResponse 400 ''Card did not match previous action''), snd ?run)"
    by (metis prod.collapse)
  with th have "snd ?run = ?d" by simp
  with t c' f show ?thesis by simp
qed

end
